theory Spec2Isabelle
  imports Main
begin

section \<open>Provider resolution and the provider cache (urls.ts, lines 1 to 237)\<close>

text \<open>
  A connection object is identified by the store address it was allocated at
  (\<open>handle\<close>): two objects are the same JavaScript reference exactly when their
  handles are equal. Every \<open>new\<close> takes the next unused handle.
\<close>

datatype provider_class =
    StaticJsonRpcBatchProvider
  | JsonRpcBatchProvider
  | WebSocketProvider
  | DefaultProvider

record rpc_provider =
  handle :: nat
  cls :: provider_class
  url :: string
  network :: "int option"

text \<open>
  The module state: the map \<open>RPC_PROVIDER_MAP\<close> from cache keys to providers, and the
  allocation counter that stands for object identity.
\<close>

record module_state =
  RPC_PROVIDER_MAP :: "string \<Rightarrow> rpc_provider option"
  next_handle :: nat

definition initial_module_state :: module_state where
  "initial_module_state = \<lparr>RPC_PROVIDER_MAP = (\<lambda>k. None), next_handle = 0\<rparr>"

text \<open>
  The constructors of the three provider classes and \<open>ethers.getDefaultProvider\<close> are
  library code; each may throw. A \<open>ctor_env\<close> says, for a class \<open>c\<close>, a URL \<open>u\<close> and a
  chain id \<open>n\<close>, whether constructing it throws.
\<close>

type_synonym ctor_env = "provider_class \<Rightarrow> string \<Rightarrow> int option \<Rightarrow> bool"

definition never_throws :: ctor_env where
  "never_throws c u n = False"

text \<open>An environment where only \<open>StaticJsonRpcBatchProvider\<close> can be constructed.\<close>

definition static_only :: ctor_env where
  "static_only c u n = (c \<noteq> StaticJsonRpcBatchProvider)"

definition new_provider ::
  "provider_class \<Rightarrow> string \<Rightarrow> int option \<Rightarrow> module_state \<Rightarrow> rpc_provider \<times> module_state" where
  "new_provider c u n s =
     (\<lparr>handle = next_handle s, cls = c, url = u, network = n\<rparr>,
      s\<lparr>next_handle := Suc (next_handle s)\<rparr>)"

text \<open>
  ASCII lower-casing, as \<open>String.prototype.toLowerCase\<close> and the \<open>i\<close> flag act on the
  scheme: an upper-case letter (codes 65 to 90) gets bit 5 set, which adds 32.
\<close>

definition toLowerCase_char :: "char \<Rightarrow> char" where
  "toLowerCase_char c =
     (if 65 \<le> (of_char c :: nat) \<and> (of_char c :: nat) \<le> 90
      then (case c of Char b0 b1 b2 b3 b4 b5 b6 b7 \<Rightarrow> Char b0 b1 b2 b3 b4 True b6 b7)
      else c)"

definition toLowerCase :: "string \<Rightarrow> string" where
  "toLowerCase s = map toLowerCase_char s"

text \<open>
  \<open>url.match(/^(ws|http)s?:/i)\<close>: the result is the first capture group, lower-cased by
  the caller (\<open>match[1].toLowerCase()\<close>), or \<open>None\<close> when the pattern does not match.
\<close>

definition match_scheme :: "string \<Rightarrow> string option" where
  "match_scheme u =
     (let l = toLowerCase u in
      if take 3 l = ''ws:'' \<or> take 4 l = ''wss:'' then Some ''ws''
      else if take 5 l = ''http:'' \<or> take 6 l = ''https:'' then Some ''http''
      else None)"

definition isRpcUrl :: "string \<Rightarrow> bool" where
  "isRpcUrl u =
     (case match_scheme u of
        Some m \<Rightarrow> m = ''http'' \<or> m = ''https'' \<or> m = ''ws'' \<or> m = ''wss''
      | None \<Rightarrow> False)"

text \<open>Decimal rendering of an integer, as a template literal renders a number.\<close>

definition digit_char :: "nat \<Rightarrow> char" where
  "digit_char d = ''0123456789'' ! d"

fun show_nat :: "nat \<Rightarrow> string" where
  "show_nat n = (if n < 10 then [digit_char n] else show_nat (n div 10) @ [digit_char (n mod 10)])"

declare show_nat.simps [simp del]

definition show_int :: "int \<Rightarrow> string" where
  "show_int i = (if i < 0 then CHR ''-'' # show_nat (nat (- i)) else show_nat (nat i))"

text \<open>\<open>chainId || -1\<close>: an absent chain id and the chain id 0 are both falsy.\<close>

definition chainId_or_minus1 :: "int option \<Rightarrow> int" where
  "chainId_or_minus1 chainId = (case chainId of None \<Rightarrow> - 1 | Some n \<Rightarrow> if n = 0 then - 1 else n)"

definition seralizedOpts :: "string \<Rightarrow> int option \<Rightarrow> string" where
  "seralizedOpts rpcUrl chainId = rpcUrl @ ''-'' @ show_int (chainId_or_minus1 chainId)"

datatype provider_error = DefaultProviderFailed

text \<open>
  \<open>ethers.getDefaultProvider(rpcUrl)\<close>, the fallback after the \<open>try\<close> block; it is called
  outside the \<open>try\<close>, so its exception reaches the caller.
\<close>

definition getDefaultProvider ::
  "ctor_env \<Rightarrow> string \<Rightarrow> module_state \<Rightarrow> (provider_error + rpc_provider) \<times> module_state" where
  "getDefaultProvider throws rpcUrl s =
     (if throws DefaultProvider rpcUrl None then (Inl DefaultProviderFailed, s)
      else (case new_provider DefaultProvider rpcUrl None s of (p, s') \<Rightarrow> (Inr p, s')))"

definition getProviderFromRpcUrl ::
  "ctor_env \<Rightarrow> string \<Rightarrow> int option \<Rightarrow> module_state
     \<Rightarrow> (provider_error + rpc_provider) \<times> module_state" where
  "getProviderFromRpcUrl throws rpcUrl chainId s =
     (case match_scheme rpcUrl of
        None \<Rightarrow> getDefaultProvider throws rpcUrl s
      | Some m \<Rightarrow>
          if m = ''http'' \<or> m = ''https'' then
            (case RPC_PROVIDER_MAP s (seralizedOpts rpcUrl chainId) of
               Some existingProvider \<Rightarrow> (Inr existingProvider, s)
             | None \<Rightarrow>
                 (let c = (if chainId \<noteq> None \<and> chainId \<noteq> Some 0
                           then StaticJsonRpcBatchProvider else JsonRpcBatchProvider);
                      n = (if c = StaticJsonRpcBatchProvider then chainId else None)
                  in if throws c rpcUrl n then getDefaultProvider throws rpcUrl s
                     else (case new_provider c rpcUrl n s of
                             (newProvider, s') \<Rightarrow>
                               (Inr newProvider,
                                s'\<lparr>RPC_PROVIDER_MAP :=
                                     (RPC_PROVIDER_MAP s')(seralizedOpts rpcUrl chainId
                                                            \<mapsto> newProvider)\<rparr>))))
          else if m = ''ws'' \<or> m = ''wss'' then
            (if throws WebSocketProvider rpcUrl chainId then getDefaultProvider throws rpcUrl s
             else (case new_provider WebSocketProvider rpcUrl chainId s of
                     (p, s') \<Rightarrow> (Inr p, s')))
          else getDefaultProvider throws rpcUrl s)"

text \<open>A sequence of calls, each with its URL and chain id, run from a state.\<close>

fun run_calls :: "ctor_env \<Rightarrow> (string \<times> int option) list \<Rightarrow> module_state \<Rightarrow> module_state" where
  "run_calls throws [] s = s"
| "run_calls throws ((u, n) # cs) s = run_calls throws cs (snd (getProviderFromRpcUrl throws u n s))"

section \<open>The transaction builder and the batch (urls.ts, from line 238)\<close>

text \<open>
  JavaScript values as the transaction builder handles them. An array is an object:
  \<open>VArr a\<close> is a reference to the array stored at address \<open>a\<close>, so two references
  to one array see each other's writes. Addresses, call data and hashes are the
  strings ethers uses for them.
\<close>

type_synonym address = string

datatype val = VStr string | VNum int | VBool bool | VArr nat

text \<open>
  \<open>BigNumberish\<close>: a JavaScript number or a \<open>BigNumber\<close> object. The number 0 is
  falsy, every \<open>BigNumber\<close> object is truthy.
\<close>

datatype BigNumberish = Number int | BigNumber int

fun truthy :: "BigNumberish \<Rightarrow> bool" where
  "truthy (Number n) = (n \<noteq> 0)"
| "truthy (BigNumber n) = True"

fun BigNumber_from :: "BigNumberish \<Rightarrow> int" where
  "BigNumber_from (Number n) = n"
| "BigNumber_from (BigNumber n) = n"

text \<open>
  \<open>BigNumber.div\<close> truncates toward zero; the divisors of this file are the constant
  100, so its division by zero does not arise.
\<close>

definition bn_div :: "int \<Rightarrow> int \<Rightarrow> int" where
  "bn_div a b = sgn a * sgn b * (\<bar>a\<bar> div \<bar>b\<bar>)"

text \<open>\<open>ethers.utils.parseUnits(x, "gwei")\<close> for the three literals of the file.\<close>

definition gwei :: int where
  "gwei = 1000000000"

definition parseUnits_300_gwei :: int where
  "parseUnits_300_gwei = 300 * gwei"

definition parseUnits_2_5_gwei :: int where
  "parseUnits_2_5_gwei = 2500000000"

definition parseUnits_1_gwei :: int where
  "parseUnits_1_gwei = 1 * gwei"

record CallOverrides =
  ov_from :: "address option"
  ov_value :: "BigNumberish option"
  ov_gasLimit :: "BigNumberish option"
  ov_gasPrice :: "BigNumberish option"
  ov_maxFeePerGas :: "BigNumberish option"
  ov_maxPriorityFeePerGas :: "BigNumberish option"

definition no_overrides :: CallOverrides where
  "no_overrides =
     \<lparr>ov_from = None, ov_value = None, ov_gasLimit = None, ov_gasPrice = None,
      ov_maxFeePerGas = None, ov_maxPriorityFeePerGas = None\<rparr>"

text \<open>\<open>{ ...a, ...b }\<close>: the keys of \<open>b\<close> win.\<close>

definition or_else :: "'a option \<Rightarrow> 'a option \<Rightarrow> 'a option" where
  "or_else b a = (case b of Some x \<Rightarrow> Some x | None \<Rightarrow> a)"

definition spread :: "CallOverrides \<Rightarrow> CallOverrides \<Rightarrow> CallOverrides" where
  "spread a b =
     \<lparr>ov_from = or_else (ov_from b) (ov_from a),
      ov_value = or_else (ov_value b) (ov_value a),
      ov_gasLimit = or_else (ov_gasLimit b) (ov_gasLimit a),
      ov_gasPrice = or_else (ov_gasPrice b) (ov_gasPrice a),
      ov_maxFeePerGas = or_else (ov_maxFeePerGas b) (ov_maxFeePerGas a),
      ov_maxPriorityFeePerGas = or_else (ov_maxPriorityFeePerGas b) (ov_maxPriorityFeePerGas a)\<rparr>"

text \<open>
  An exception object as a collaborator raises it or as \<open>new Error(message)\<close> builds it;
  the three optional fields are the places \<open>transactionError\<close> looks for a hash.
\<close>

record raw_error =
  message :: string
  err_transactionHash :: "string option"
  err_transaction_hash :: "string option"
  err_receipt_transactionHash :: "string option"

definition Error :: "string \<Rightarrow> raw_error" where
  "Error m =
     \<lparr>message = m, err_transactionHash = None, err_transaction_hash = None,
      err_receipt_transactionHash = None\<rparr>"

record Network =
  net_chainId :: int
  net_name :: string

type_synonym ContractSource = "string \<times> string"

record TransactionError =
  te_reason :: string
  te_from :: address
  te_to :: address
  te_method :: string
  te_data :: string
  te_network :: Network
  te_rpcUrl :: "string option"
  te_value :: int
  te_hash :: "string option"
  te_contractName :: "string option"
  te_sources :: "ContractSource list option"

text \<open>
  What a \<open>throw\<close> can carry here: an error object, a \<open>TransactionError\<close>, or a promise
  that was thrown without being awaited. The promise holds what it settles to: the
  \<open>TransactionError\<close> it fulfils with, or the value it rejects with.
\<close>

datatype thrown =
    Thrown_Error raw_error
  | Thrown_TransactionError TransactionError
  | Thrown_Promise "thrown + TransactionError"

record TransactionReceipt =
  rc_transactionHash :: string
  rc_blockNumber :: int

record ContractTransaction =
  tx_hash :: string
  tx_wait :: "raw_error + TransactionReceipt"

datatype TransactionResult = Receipt TransactionReceipt | Parsed string

record FeeData =
  fd_maxFeePerGas :: "int option"
  fd_maxPriorityFeePerGas :: "int option"
  fd_gasPrice :: "int option"

record Block =
  baseFeePerGas :: "int option"

text \<open>
  The collaborators. Each field is the outcome of the call of that name: \<open>Inl\<close> the
  exception it rejects with, \<open>Inr\<close> its result. The outcomes of one builder's
  collaborators are fixed for the run that is studied. The contract's methods read
  the arguments they are given, arrays included, so they take the array store.
\<close>

record Provider =
  p_getNetwork :: "raw_error + Network"
  p_getFeeData :: "raw_error + FeeData"
  p_getBlock_latest :: "raw_error + Block option"
  p_getGasPrice :: "raw_error + int"
  p_getBalance :: "address \<Rightarrow> raw_error + int"
  p_getTransaction :: "string \<Rightarrow> raw_error + ContractTransaction option"
  p_waitForTransaction :: "string \<Rightarrow> raw_error + TransactionReceipt"
  p_connection_url :: "string option"

record Signer =
  s_getAddress :: "raw_error + address"

record Contract =
  c_address :: address
  c_callStatic ::
    "string \<Rightarrow> (val list list \<Rightarrow> val list \<Rightarrow> BigNumberish option \<Rightarrow> raw_error + val) option"
  c_estimateGas ::
    "string \<Rightarrow> (val list list \<Rightarrow> val list \<Rightarrow> CallOverrides option \<Rightarrow> raw_error + int) option"
  c_functions ::
    "string \<Rightarrow> (val list list \<Rightarrow> val list \<Rightarrow> CallOverrides \<Rightarrow> raw_error + ContractTransaction) option"
  c_encodeFunctionData :: "string \<Rightarrow> val list list \<Rightarrow> val list \<Rightarrow> raw_error + string"
  c_getFunction_name :: "string \<Rightarrow> raw_error + string"

text \<open>
  \<open>SDKOptionsOutput["gasless"]\<close>: which relay keys the configuration object has, each
  with its settings.
\<close>

record GaslessOptions =
  openzeppelin :: "string option"
  biconomy :: "string option"

text \<open>The builder. Its field \<open>method_name\<close> is the field \<open>method\<close> of the class, and
  \<open>args\<close> is the reference to its argument array.\<close>

record Transaction =
  contract :: Contract
  method_name :: string
  args :: nat
  overrides :: CallOverrides
  provider :: Provider
  signer :: Signer
  storage :: string
  gaslessOptions :: "GaslessOptions option"
  parse :: "(TransactionReceipt \<Rightarrow> raw_error + string) option"

record GaslessTransaction =
  g_from :: address
  g_to :: address
  g_data :: string
  g_chainId :: int
  g_gasLimit :: int
  g_functionName :: string
  g_functionArgs :: nat
  g_callOverrides :: CallOverrides

record Metadata =
  md_name :: string
  md_metadata_sources :: bool

text \<open>
  The functions this file imports from modules and libraries outside it, and the
  chain ids of \<open>constants/chains\<close>, as parameters.
\<close>

record Env =
  isBrowser :: bool
  ChainId_Mumbai :: int
  ChainId_Polygon :: int
  getPolygonGasPriorityFee :: "int \<Rightarrow> raw_error + int"
  fetchContractMetadataFromAddress :: "address \<Rightarrow> raw_error + Metadata"
  fetchSourceFilesFromMetadata :: "Metadata \<Rightarrow> raw_error + ContractSource list"
  defaultGaslessSendFunction ::
    "val list list \<Rightarrow> GaslessTransaction \<Rightarrow> GaslessOptions \<Rightarrow> raw_error + string"
  parseRevertReason :: "raw_error \<Rightarrow> string"
  solidityPack_bytes_address :: "val \<Rightarrow> address \<Rightarrow> raw_error + val"
  JSON_stringify :: "val list list \<Rightarrow> val \<Rightarrow> string"
  JSON_stringify_indent2 :: "val list list \<Rightarrow> val \<Rightarrow> string"

text \<open>Every call of a collaborator leaves an event in the trace, in the order made.\<close>

datatype event =
    Ev_getAddress
  | Ev_getNetwork
  | Ev_getFeeData
  | Ev_getBlock
  | Ev_getGasPrice
  | Ev_getBalance address
  | Ev_getPolygonGasPriorityFee int
  | Ev_callStatic address string
  | Ev_estimateGas address string
  | Ev_functions address string
  | Ev_wait string
  | Ev_relay GaslessTransaction
  | Ev_getTransaction string
  | Ev_fetchContractMetadata address
  | Ev_fetchSourceFiles address

text \<open>
  The world: the arrays and the builders that exist, each at the address that is its
  index, and the trace. Objects are only ever added at the end, so an address keeps
  its meaning.
\<close>

record world =
  arrays :: "val list list"
  builders :: "Transaction list"
  trace :: "event list"

type_synonym 'a io = "world \<Rightarrow> (thrown + 'a) \<times> world"

definition ret :: "'a \<Rightarrow> 'a io" where
  "ret x w = (Inr x, w)"

definition throw :: "thrown \<Rightarrow> 'a io" where
  "throw e w = (Inl e, w)"

text \<open>\<open>bnd m f\<close>: \<open>await\<close> the first, then go on; an exception of the first ends both.\<close>

definition bnd :: "'a io \<Rightarrow> ('a \<Rightarrow> 'b io) \<Rightarrow> 'b io" where
  "bnd m f w = (case m w of (Inl e, w') \<Rightarrow> (Inl e, w') | (Inr x, w') \<Rightarrow> f x w')"

text \<open>A collaborator call inside a \<open>try\<close>: the outcome is handed over, nothing is thrown.\<close>

definition attempt :: "event \<Rightarrow> raw_error + 'a \<Rightarrow> (raw_error + 'a) io" where
  "attempt ev r w = (Inr r, w\<lparr>trace := trace w @ [ev]\<rparr>)"

text \<open>A library function that may throw and reaches no collaborator.\<close>

definition lib :: "raw_error + 'a \<Rightarrow> 'a io" where
  "lib r = (case r of Inl e \<Rightarrow> throw (Thrown_Error e) | Inr v \<Rightarrow> ret v)"

definition call :: "event \<Rightarrow> raw_error + 'a \<Rightarrow> 'a io" where
  "call ev r = bnd (attempt ev r) lib"

definition get_arrays :: "val list list io" where
  "get_arrays w = (Inr (arrays w), w)"

text \<open>Reading an array through a reference. A reference to no object cannot arise in
  JavaScript; it reads as the empty array.\<close>

definition array_at :: "val list list \<Rightarrow> nat \<Rightarrow> val list" where
  "array_at st a = (if a < length st then st ! a else [])"

definition deref :: "nat \<Rightarrow> val list io" where
  "deref a w = (Inr (array_at (arrays w) a), w)"

definition new_array :: "val list \<Rightarrow> nat io" where
  "new_array xs w = (Inr (length (arrays w)), w\<lparr>arrays := arrays w @ [xs]\<rparr>)"

text \<open>\<open>a[0] = v\<close>, a write into the array that \<open>a\<close> refers to.\<close>

definition set_index0 :: "nat \<Rightarrow> val \<Rightarrow> unit io" where
  "set_index0 a v w =
     (Inr (), w\<lparr>arrays := (arrays w)[a := v # tl (array_at (arrays w) a)]\<rparr>)"

text \<open>Reading \<open>this\<close>. A member function is only ever called on a builder that exists.\<close>

definition this_builder :: "nat \<Rightarrow> Transaction io" where
  "this_builder this w =
     (if this < length (builders w) then (Inr (builders w ! this), w)
      else (Inl (Thrown_Error (Error ''TypeError: not a Transaction'')), w))"

text \<open>\<open>setOverrides\<close>, and two of the setters built on it: the setters are where a builder
  is written.\<close>

definition setOverrides :: "nat \<Rightarrow> CallOverrides \<Rightarrow> unit io" where
  "setOverrides this ov =
     bnd (this_builder this) (\<lambda>t w.
       (Inr (), w\<lparr>builders := (builders w)[this := t\<lparr>overrides := spread (overrides t) ov\<rparr>]\<rparr>))"

definition setValue :: "nat \<Rightarrow> BigNumberish \<Rightarrow> unit io" where
  "setValue this v = setOverrides this (no_overrides\<lparr>ov_value := Some v\<rparr>)"

definition setGasLimit :: "nat \<Rightarrow> BigNumberish \<Rightarrow> unit io" where
  "setGasLimit this g = setOverrides this (no_overrides\<lparr>ov_gasLimit := Some g\<rparr>)"

subsection \<open>Fee policy\<close>

definition getPreferredPriorityFee :: "int \<Rightarrow> int" where
  "getPreferredPriorityFee defaultPriorityFeePerGas =
     (let extraTip = bn_div defaultPriorityFeePerGas 100 * 10;
          txGasPrice = defaultPriorityFeePerGas + extraTip;
          maxGasPrice = parseUnits_300_gwei;
          minGasPrice = parseUnits_2_5_gwei
      in if txGasPrice > maxGasPrice then maxGasPrice
         else if txGasPrice < minGasPrice then minGasPrice
         else txGasPrice)"

definition getGasPrice :: "nat \<Rightarrow> int io" where
  "getGasPrice this =
     bnd (this_builder this) (\<lambda>t.
     bnd (call Ev_getGasPrice (p_getGasPrice (provider t))) (\<lambda>gasPrice.
       let maxGasPrice = parseUnits_300_gwei;
           extraTip = bn_div gasPrice 100 * 10;
           txGasPrice = gasPrice + extraTip
       in if txGasPrice > maxGasPrice then ret maxGasPrice else ret txGasPrice))"

definition getGasOverrides :: "Env \<Rightarrow> nat \<Rightarrow> CallOverrides io" where
  "getGasOverrides env this =
     (if isBrowser env then ret no_overrides
      else
        bnd (this_builder this) (\<lambda>t.
        bnd (call Ev_getFeeData (p_getFeeData (provider t))) (\<lambda>feeData.
          if fd_maxFeePerGas feeData \<noteq> None \<and> fd_maxPriorityFeePerGas feeData \<noteq> None then
            bnd (call Ev_getNetwork (p_getNetwork (provider t))) (\<lambda>net.
            bnd (call Ev_getBlock (p_getBlock_latest (provider t))) (\<lambda>block.
              let chainId = net_chainId net;
                  baseBlockFee =
                    (case block of
                       None \<Rightarrow> parseUnits_1_gwei
                     | Some b \<Rightarrow>
                         (case baseFeePerGas b of None \<Rightarrow> parseUnits_1_gwei | Some f \<Rightarrow> f))
              in
              bnd (if chainId = ChainId_Mumbai env \<or> chainId = ChainId_Polygon env
                   then call (Ev_getPolygonGasPriorityFee chainId)
                          (getPolygonGasPriorityFee env chainId)
                   else (case fd_maxPriorityFeePerGas feeData of
                           Some p \<Rightarrow> ret p
                         | None \<Rightarrow> throw (Thrown_Error (Error ''invalid BigNumber value''))))
                (\<lambda>defaultPriorityFee.
                let maxPriorityFeePerGas = getPreferredPriorityFee defaultPriorityFee;
                    baseMaxFeePerGas = baseBlockFee * 2;
                    maxFeePerGas = baseMaxFeePerGas + maxPriorityFeePerGas
                in ret (no_overrides
                          \<lparr>ov_maxFeePerGas := Some (BigNumber maxFeePerGas),
                           ov_maxPriorityFeePerGas := Some (BigNumber maxPriorityFeePerGas)\<rparr>))))
          else
            bnd (getGasPrice this) (\<lambda>gasPrice.
              ret (no_overrides\<lparr>ov_gasPrice := Some (BigNumber gasPrice)\<rparr>)))))"

subsection \<open>Errors\<close>

definition functionError :: "Transaction \<Rightarrow> raw_error" where
  "functionError t =
     Error (''Contract '' @ [CHR 0x22] @ c_address (contract t) @ [CHR 0x22]
            @ '' does not have function '' @ [CHR 0x22] @ method_name t @ [CHR 0x22])"

definition getSignerAddress :: "nat \<Rightarrow> address io" where
  "getSignerAddress this =
     bnd (this_builder this) (\<lambda>t. call Ev_getAddress (s_getAddress (signer t)))"

text \<open>\<open>this.overrides.from || this.getSignerAddress()\<close>: the empty string is falsy.\<close>

definition from_or_signer :: "CallOverrides \<Rightarrow> nat \<Rightarrow> address io" where
  "from_or_signer ov this =
     (case ov_from ov of
        Some f \<Rightarrow> if f \<noteq> [] then ret f else getSignerAddress this
      | None \<Rightarrow> getSignerAddress this)"

text \<open>\<open>this.overrides.value || 0\<close>, read by \<open>BigNumber.from\<close>.\<close>

definition value_or_0 :: "CallOverrides \<Rightarrow> int" where
  "value_or_0 ov =
     (case ov_value ov of Some v \<Rightarrow> if truthy v then BigNumber_from v else 0 | None \<Rightarrow> 0)"

definition encode :: "nat \<Rightarrow> string io" where
  "encode this =
     bnd (this_builder this) (\<lambda>t.
     bnd (deref (args t)) (\<lambda>argv.
     bnd get_arrays (\<lambda>st.
       lib (c_encodeFunctionData (contract t) (method_name t) st argv))))"

fun join :: "string \<Rightarrow> string list \<Rightarrow> string" where
  "join sep [] = []"
| "join sep [x] = x"
| "join sep (x # y # ys) = x @ sep @ join sep (y # ys)"

text \<open>Splitting at the line feeds and joining with a line feed and two spaces: every
  line feed gets two spaces after it.\<close>

definition indent_lines :: "string \<Rightarrow> string" where
  "indent_lines arg = concat (map (\<lambda>c. if c = CHR 0x0A then [CHR 0x0A, CHR '' '', CHR '' ''] else [c]) arg)"

definition falsy_string :: "string option \<Rightarrow> bool" where
  "falsy_string x = (case x of None \<Rightarrow> True | Some h \<Rightarrow> h = [])"

definition transactionError :: "Env \<Rightarrow> nat \<Rightarrow> raw_error \<Rightarrow> TransactionError io" where
  "transactionError env this error =
     bnd (this_builder this) (\<lambda>t.
     bnd (call Ev_getNetwork (p_getNetwork (provider t))) (\<lambda>network.
     bnd (from_or_signer (overrides t) this) (\<lambda>from.
     bnd (encode this) (\<lambda>data.
     bnd (lib (c_getFunction_name (contract t) (method_name t))) (\<lambda>functionSignature_name.
     bnd (deref (args t)) (\<lambda>argv.
     bnd get_arrays (\<lambda>st.
       let to = c_address (contract t);
           value = value_or_0 (overrides t);
           rpcUrl = p_connection_url (provider t);
           methodArgs =
             map (\<lambda>arg. if length (JSON_stringify env st arg) \<le> 80
                        then JSON_stringify env st arg
                        else JSON_stringify_indent2 env st arg) argv;
           joinedArgs =
             (if length (join '', '' methodArgs) \<le> 80 then join '', '' methodArgs
              else [CHR 0x0A]
                   @ join ('','' @ [CHR 0x0A]) (map (\<lambda>arg. ''  '' @ indent_lines arg) methodArgs)
                   @ [CHR 0x0A]);
           method_text = functionSignature_name @ ''('' @ joinedArgs @ '')'';
           hash =
             (if \<not> falsy_string (err_transactionHash error) then err_transactionHash error
              else if \<not> falsy_string (err_transaction_hash error) then err_transaction_hash error
              else err_receipt_transactionHash error);
           reason = parseRevertReason env error
       in
       bnd (attempt (Ev_fetchContractMetadata to) (fetchContractMetadataFromAddress env to))
         (\<lambda>fetched.
       bnd (case fetched of
              Inl e \<Rightarrow> ret (None, None)
            | Inr metadata \<Rightarrow>
                (let contractName =
                       (if md_name metadata \<noteq> [] then Some (md_name metadata) else None)
                 in if md_metadata_sources metadata then
                      bnd (attempt (Ev_fetchSourceFiles to)
                             (fetchSourceFilesFromMetadata env metadata)) (\<lambda>files.
                        ret (contractName,
                             (case files of Inl e \<Rightarrow> None | Inr fs \<Rightarrow> Some fs)))
                    else ret (contractName, None))) (\<lambda>(contractName, sources).
         ret \<lparr>te_reason = reason, te_from = from, te_to = to, te_method = method_text,
              te_data = data, te_network = network, te_rpcUrl = rpcUrl, te_value = value,
              te_hash = hash, te_contractName = contractName, te_sources = sources\<rparr>)))))))))"

text \<open>
  \<open>throw await m\<close> throws what \<open>m\<close> fulfils with. \<open>throw m\<close> without the \<open>await\<close> throws
  the promise itself: the caller catches a promise, whatever it settles to. The body
  of the promise runs all the same; its collaborator calls are entered in the trace
  where the promise is made.
\<close>

definition throw_await :: "TransactionError io \<Rightarrow> 'a io" where
  "throw_await m = bnd m (\<lambda>te. throw (Thrown_TransactionError te))"

definition throw_promise :: "TransactionError io \<Rightarrow> 'a io" where
  "throw_promise m w = (case m w of (r, w') \<Rightarrow> (Inl (Thrown_Promise r), w'))"

subsection \<open>Simulation and gas estimation\<close>

definition simulate :: "Env \<Rightarrow> nat \<Rightarrow> val io" where
  "simulate env this =
     bnd (this_builder this) (\<lambda>t.
       case c_callStatic (contract t) (method_name t) of
         None \<Rightarrow> throw (Thrown_Error (functionError t))
       | Some f \<Rightarrow>
           bnd (deref (args t)) (\<lambda>argv.
           bnd get_arrays (\<lambda>st.
           bnd (attempt (Ev_callStatic (c_address (contract t)) (method_name t))
                  (f st argv (case ov_value (overrides t) of
                                Some v \<Rightarrow> if truthy v then Some v else None
                              | None \<Rightarrow> None))) (\<lambda>r.
             case r of
               Inr v \<Rightarrow> ret v
             | Inl err \<Rightarrow> throw_await (transactionError env this err)))))"

definition estimateGasLimit :: "Env \<Rightarrow> nat \<Rightarrow> int io" where
  "estimateGasLimit env this =
     bnd (this_builder this) (\<lambda>t.
       case c_estimateGas (contract t) (method_name t) of
         None \<Rightarrow> throw (Thrown_Error (functionError t))
       | Some f \<Rightarrow>
           bnd (deref (args t)) (\<lambda>argv.
           bnd get_arrays (\<lambda>st.
           bnd (attempt (Ev_estimateGas (c_address (contract t)) (method_name t))
                  (f st argv (Some (overrides t)))) (\<lambda>r.
             case r of
               Inr g \<Rightarrow> ret g
             | Inl err \<Rightarrow>
                 bnd (simulate env this) (\<lambda>v.
                   throw_promise (transactionError env this err))))))"

subsection \<open>The gasless path\<close>

definition gasless_configured :: "GaslessOptions option \<Rightarrow> bool" where
  "gasless_configured g =
     (case g of None \<Rightarrow> False | Some c \<Rightarrow> openzeppelin c \<noteq> None \<or> biconomy c \<noteq> None)"

text \<open>\<open>xs.map(tx => solidityPack(["bytes", "address"], [tx, from]))\<close>: the first element
  that cannot be packed throws.\<close>

fun map_pack :: "(val \<Rightarrow> raw_error + val) \<Rightarrow> val list \<Rightarrow> raw_error + val list" where
  "map_pack f [] = Inr []"
| "map_pack f (x # xs) =
     (case f x of
        Inl e \<Rightarrow> Inl e
      | Inr y \<Rightarrow> (case map_pack f xs of Inl e \<Rightarrow> Inl e | Inr ys \<Rightarrow> Inr (y # ys)))"

text \<open>\<open>xs[0]\<close>, which is \<open>undefined\<close> on the empty array, and \<open>Array.isArray\<close> of it.\<close>

definition first :: "val list \<Rightarrow> val option" where
  "first xs = (case xs of [] \<Rightarrow> None | x # rest \<Rightarrow> Some x)"

fun isArray :: "val option \<Rightarrow> bool" where
  "isArray (Some (VArr a)) = True"
| "isArray other = False"

text \<open>
  The first part of \<open>sendGasless\<close>: \<open>const args = [...this.args]\<close>, then for a
  \<open>multicall\<close> whose first argument is a non-empty array, \<open>args[0]\<close> is set to a new
  array of the packed calls. The result is the reference \<open>args\<close>.
\<close>

definition gasless_args :: "Env \<Rightarrow> nat \<Rightarrow> nat io" where
  "gasless_args env this =
     bnd (this_builder this) (\<lambda>t.
     bnd (deref (args t)) (\<lambda>this_args.
     bnd (new_array this_args) (\<lambda>args'.
     bnd (deref args') (\<lambda>argv.
       if method_name t = ''multicall'' \<and> isArray (first this_args) then
         (case first argv of
            Some (VArr a0) \<Rightarrow>
              bnd (deref a0) (\<lambda>inner.
                if length inner > 0 then
                  bnd (getSignerAddress this) (\<lambda>from.
                  bnd (lib (map_pack (\<lambda>tx. solidityPack_bytes_address env tx from) inner))
                    (\<lambda>packed.
                  bnd (new_array packed) (\<lambda>a1.
                  bnd (set_index0 args' (VArr a1)) (\<lambda>u. ret args'))))
                else ret args')
          | other \<Rightarrow> ret args')
       else ret args'))))"

text \<open>The gas limit of the relay descriptor, from the outcome of the direct estimate
  and the \<open>gasLimit\<close> override.\<close>

definition gasless_gas :: "raw_error + int \<Rightarrow> BigNumberish option \<Rightarrow> int" where
  "gasless_gas estimate gasLimit =
     (let gas0 = (case estimate of Inr gasEstimate \<Rightarrow> gasEstimate * 2 | Inl e \<Rightarrow> 0);
          gas1 = (if gas0 < 100000 then 500000 else gas0)
      in case gasLimit of
           Some l \<Rightarrow> if truthy l \<and> BigNumber_from l > gas1 then BigNumber_from l else gas1
         | None \<Rightarrow> gas1)"

text \<open>
  \<open>sendGasless\<close>. Its second \<open>invariant\<close>, that the signer is set, cannot fail: the
  constructor leaves no builder without one.
\<close>

definition sendGasless :: "Env \<Rightarrow> nat \<Rightarrow> ContractTransaction io" where
  "sendGasless env this =
     bnd (this_builder this) (\<lambda>t.
       case (if gasless_configured (gaslessOptions t) then gaslessOptions t else None) of
         None \<Rightarrow>
           throw (Thrown_Error
                    (Error ''Invariant failed: No gasless options set on this transaction!''))
       | Some options \<Rightarrow>
         bnd (gasless_args env this) (\<lambda>args'.
         bnd (call Ev_getNetwork (p_getNetwork (provider t))) (\<lambda>net.
         bnd (from_or_signer (overrides t) this) (\<lambda>from.
           let chainId = net_chainId net;
               to = c_address (contract t);
               value = value_or_0 (overrides t)
           in
           if value > 0 then
             throw (Thrown_Error
                      (Error ''Cannot send native token value with gasless transaction''))
           else
             bnd (deref args') (\<lambda>argv.
             bnd get_arrays (\<lambda>st.
             bnd (lib (c_encodeFunctionData (contract t) (method_name t) st argv)) (\<lambda>data.
             bnd (case c_estimateGas (contract t) (method_name t) of
                    None \<Rightarrow> ret (Inl (Error ''TypeError: not a function''))
                  | Some f \<Rightarrow> attempt (Ev_estimateGas to (method_name t)) (f st argv None))
               (\<lambda>estimate.
               let gas = gasless_gas estimate (ov_gasLimit (overrides t));
                   tx = \<lparr>g_from = from, g_to = to, g_data = data, g_chainId = chainId,
                         g_gasLimit = gas, g_functionName = method_name t,
                         g_functionArgs = args', g_callOverrides = overrides t\<rparr>
               in
               bnd (call (Ev_relay tx)
                      (defaultGaslessSendFunction env st tx options))
                 (\<lambda>txHash.
               bnd (call (Ev_getTransaction txHash) (p_getTransaction (provider t) txHash))
                 (\<lambda>sentTx.
                 case sentTx of
                   None \<Rightarrow> throw (Thrown_Error (Error ''TypeError: sentTx is null''))
                 | Some stx \<Rightarrow>
                     ret (stx\<lparr>tx_wait := p_waitForTransaction (provider t) txHash\<rparr>)))))))))))"

subsection \<open>Sending and executing\<close>

definition falsy_opt :: "BigNumberish option \<Rightarrow> bool" where
  "falsy_opt x = (case x of None \<Rightarrow> True | Some v \<Rightarrow> \<not> truthy v)"

definition send :: "Env \<Rightarrow> nat \<Rightarrow> ContractTransaction io" where
  "send env this =
     bnd (this_builder this) (\<lambda>t.
       case c_functions (contract t) (method_name t) of
         None \<Rightarrow> throw (Thrown_Error (functionError t))
       | Some f \<Rightarrow>
           if gasless_configured (gaslessOptions t) then sendGasless env this
           else
             bnd (getGasOverrides env this) (\<lambda>gasOverrides.
             bnd (if falsy_opt (ov_gasLimit (spread gasOverrides (overrides t))) then
                    bnd (estimateGasLimit env this) (\<lambda>g.
                      ret ((spread gasOverrides (overrides t))
                             \<lparr>ov_gasLimit := Some (BigNumber g)\<rparr>))
                  else ret (spread gasOverrides (overrides t))) (\<lambda>overrides'.
             bnd (deref (args t)) (\<lambda>argv.
             bnd get_arrays (\<lambda>st.
             bnd (attempt (Ev_functions (c_address (contract t)) (method_name t))
                    (f st argv overrides')) (\<lambda>r.
               case r of
                 Inr tx \<Rightarrow> ret tx
               | Inl err \<Rightarrow>
                   bnd (from_or_signer overrides' this) (\<lambda>from.
                   bnd (call (Ev_getBalance from) (p_getBalance (provider t) from)) (\<lambda>balance.
                     if balance = 0
                        \<or> (case ov_value overrides' of
                              Some v \<Rightarrow> truthy v \<and> balance < BigNumber_from v
                            | None \<Rightarrow> False)
                     then throw_await (transactionError env this
                            (Error (''You have insufficient funds in your account ''
                                    @ ''to execute this transaction.'')))
                     else throw_await (transactionError env this err)))))))))"

definition execute :: "Env \<Rightarrow> nat \<Rightarrow> TransactionResult io" where
  "execute env this =
     bnd (send env this) (\<lambda>tx.
     bnd (attempt (Ev_wait (tx_hash tx)) (tx_wait tx)) (\<lambda>r.
       case r of
         Inl err \<Rightarrow>
           bnd (simulate env this) (\<lambda>v. throw_await (transactionError env this err))
       | Inr receipt \<Rightarrow>
           bnd (this_builder this) (\<lambda>t.
             case parse t of
               Some p \<Rightarrow> bnd (lib (p receipt)) (\<lambda>x. ret (Parsed x))
             | None \<Rightarrow> ret (Receipt receipt))))"

subsection \<open>The batch\<close>

text \<open>The loop of \<open>executeAll\<close> over \<open>this.transactions\<close>, with the \<open>receipts\<close> pushed
  so far.\<close>

fun executeAll_loop :: "Env \<Rightarrow> nat list \<Rightarrow> TransactionResult list \<Rightarrow> TransactionResult list io" where
  "executeAll_loop env [] receipts = ret receipts"
| "executeAll_loop env (transaction # rest) receipts =
     bnd (execute env transaction) (\<lambda>receipt. executeAll_loop env rest (receipts @ [receipt]))"

definition executeAll :: "Env \<Rightarrow> nat list \<Rightarrow> TransactionResult list io" where
  "executeAll env transactions = executeAll_loop env transactions []"

section \<open>What a computation leaves unchanged\<close>

text \<open>Whether an event is a submission to the relay.\<close>

fun is_relay :: "event \<Rightarrow> bool" where
  "is_relay (Ev_relay tx) = True"
| "is_relay other = False"

text \<open>
  What a computation leaves as it was. \<open>keeps bs n P m Q\<close>: run from a world whose
  builders are \<open>bs\<close> and that has at least \<open>n\<close> arrays, \<open>m\<close> leaves the builders and
  the first \<open>n\<close> arrays as they were, removes no array, adds to the trace only events
  that satisfy \<open>P\<close>, and a result it returns satisfies \<open>Q\<close>.
\<close>

definition keeps ::
  "Transaction list \<Rightarrow> nat \<Rightarrow> (event \<Rightarrow> bool) \<Rightarrow> 'a io \<Rightarrow> ('a \<Rightarrow> bool) \<Rightarrow> bool"
  where
  "keeps bs n P m Q =
     (\<forall>w. builders w = bs \<and> n \<le> length (arrays w) \<longrightarrow>
        (case m w of
           (r, w') \<Rightarrow>
             builders w' = bs \<and> take n (arrays w') = take n (arrays w)
             \<and> length (arrays w) \<le> length (arrays w')
             \<and> (\<exists>evs. trace w' = trace w @ evs \<and> list_all P evs)
             \<and> (case r of Inr x \<Rightarrow> Q x | Inl e \<Rightarrow> True)))"

section \<open>Sample collaborators for concrete runs\<close>

definition sample_receipt :: "string \<Rightarrow> TransactionReceipt" where
  "sample_receipt h = \<lparr>rc_transactionHash = h, rc_blockNumber = 7\<rparr>"

definition sample_provider :: Provider where
  "sample_provider =
     \<lparr>p_getNetwork = Inr \<lparr>net_chainId = 1, net_name = ''homestead''\<rparr>,
      p_getFeeData = Inr \<lparr>fd_maxFeePerGas = None, fd_maxPriorityFeePerGas = None,
                           fd_gasPrice = Some 1000000099\<rparr>,
      p_getBlock_latest = Inr (Some \<lparr>baseFeePerGas = None\<rparr>),
      p_getGasPrice = Inr 1000000099,
      p_getBalance = (\<lambda>a. Inr 5000000000000000000),
      p_getTransaction = (\<lambda>h. Inr (Some \<lparr>tx_hash = h, tx_wait = Inl (Error ''unset'')\<rparr>)),
      p_waitForTransaction = (\<lambda>h. Inr (sample_receipt h)),
      p_connection_url = Some ''https://rpc.example''\<rparr>"

definition sample_signer :: Signer where
  "sample_signer = \<lparr>s_getAddress = Inr ''0xf39f''\<rparr>"

text \<open>A rendering of a value that shows the strings of an array one level down.\<close>

fun show_flat :: "val \<Rightarrow> string" where
  "show_flat (VStr x) = x"
| "show_flat (VNum n) = show_int n"
| "show_flat (VBool b) = (if b then ''true'' else ''false'')"
| "show_flat (VArr a) = ''[..]''"

fun sample_show :: "val list list \<Rightarrow> val \<Rightarrow> string" where
  "sample_show st (VArr a) = ''['' @ join '','' (map show_flat (array_at st a)) @ '']''"
| "sample_show st v = show_flat v"

text \<open>A contract with the functions \<open>mint\<close> and \<open>multicall\<close>, and the outcomes of its
  static call, its gas estimate and its submission.\<close>

definition sample_contract ::
  "address \<Rightarrow> raw_error + val \<Rightarrow> raw_error + int \<Rightarrow> raw_error + ContractTransaction \<Rightarrow> Contract"
  where
  "sample_contract a simulated estimated sent =
     \<lparr>c_address = a,
      c_callStatic = (\<lambda>m. if m = ''mint'' \<or> m = ''multicall''
                         then Some (\<lambda>st argv v. simulated) else None),
      c_estimateGas = (\<lambda>m. if m = ''mint'' \<or> m = ''multicall''
                          then Some (\<lambda>st argv ov. estimated) else None),
      c_functions = (\<lambda>m. if m = ''mint'' \<or> m = ''multicall''
                        then Some (\<lambda>st argv ov. sent) else None),
      c_encodeFunctionData = (\<lambda>m st argv. Inr (m @ '':'' @ join '';'' (map (sample_show st) argv))),
      c_getFunction_name = (\<lambda>m. Inr m)\<rparr>"

definition mined :: "string \<Rightarrow> raw_error + ContractTransaction" where
  "mined h = Inr \<lparr>tx_hash = h, tx_wait = Inr (sample_receipt h)\<rparr>"

definition good_contract :: "address \<Rightarrow> int \<Rightarrow> Contract" where
  "good_contract a gas = sample_contract a (Inr (VBool True)) (Inr gas) (mined ''0xaa'')"

definition sample_pack :: "val \<Rightarrow> address \<Rightarrow> raw_error + val" where
  "sample_pack tx from =
     (case tx of
        VStr x \<Rightarrow> Inr (VStr (x @ drop 2 from))
      | other \<Rightarrow> Inl (Error ''invalid arrayify value''))"

definition sample_env :: Env where
  "sample_env =
     \<lparr>isBrowser = False,
      ChainId_Mumbai = 80001,
      ChainId_Polygon = 137,
      getPolygonGasPriorityFee = (\<lambda>c. Inr (30 * gwei)),
      fetchContractMetadataFromAddress = (\<lambda>a. Inl (Error ''no metadata'')),
      fetchSourceFilesFromMetadata = (\<lambda>m. Inl (Error ''no sources'')),
      defaultGaslessSendFunction = (\<lambda>st tx g. Inr ''0xbeef''),
      parseRevertReason = message,
      solidityPack_bytes_address = sample_pack,
      JSON_stringify = sample_show,
      JSON_stringify_indent2 = sample_show\<rparr>"

definition sample_tx :: "Contract \<Rightarrow> string \<Rightarrow> nat \<Rightarrow> Transaction" where
  "sample_tx c m a =
     \<lparr>contract = c, method_name = m, args = a, overrides = no_overrides,
      provider = sample_provider, signer = sample_signer, storage = ''ipfs'',
      gaslessOptions = None, parse = None\<rparr>"

definition relayed :: "GaslessOptions option" where
  "relayed = Some \<lparr>openzeppelin = Some ''https://relayer.example'', biconomy = None\<rparr>"

subsection \<open>Sample worlds\<close>

definition legacy_world :: world where
  "legacy_world =
     \<lparr>arrays = [[VNum 5]],
      builders = [sample_tx (good_contract ''0x5fbd'' 80000) ''mint'' 0],
      trace = []\<rparr>"

definition fee_market_provider :: "int option \<Rightarrow> Provider" where
  "fee_market_provider base =
     sample_provider
       \<lparr>p_getFeeData := Inr \<lparr>fd_maxFeePerGas = Some 3500000000,
                               fd_maxPriorityFeePerGas = Some 1500000000,
                               fd_gasPrice = Some 1000000099\<rparr>,
        p_getBlock_latest := Inr (Some \<lparr>baseFeePerGas = base\<rparr>)\<rparr>"

definition fee_market_world :: "int option \<Rightarrow> world" where
  "fee_market_world base =
     \<lparr>arrays = [[VNum 5]],
      builders = [(sample_tx (good_contract ''0x5fbd'' 80000) ''mint'' 0)
                    \<lparr>provider := fee_market_provider base\<rparr>],
      trace = []\<rparr>"

text \<open>A fee-market network with chain id 1 that reports the priority fee \<open>reported\<close>.\<close>

definition priority_fee_world :: "int \<Rightarrow> world" where
  "priority_fee_world reported =
     \<lparr>arrays = [[VNum 5]],
      builders = [(sample_tx (good_contract ''0x5fbd'' 80000) ''mint'' 0)
                    \<lparr>provider := sample_provider
                       \<lparr>p_getFeeData := Inr \<lparr>fd_maxFeePerGas = Some 3500000000,
                                               fd_maxPriorityFeePerGas = Some reported,
                                               fd_gasPrice = Some 1000000099\<rparr>\<rparr>\<rparr>],
      trace = []\<rparr>"

definition gasless_world :: "string \<Rightarrow> val list list \<Rightarrow> int \<Rightarrow> CallOverrides \<Rightarrow> world" where
  "gasless_world m st gas ov =
     \<lparr>arrays = st,
      builders = [(sample_tx (good_contract ''0x5fbd'' gas) m 0)
                    \<lparr>gaslessOptions := relayed, overrides := ov\<rparr>],
      trace = []\<rparr>"

definition multicall_world :: world where
  "multicall_world = gasless_world ''multicall'' [[VArr 1, VNum 9], [VStr ''0x01'', VStr ''0x02'']] 80000
      (no_overrides\<lparr>ov_gasLimit := Some (Number 700000)\<rparr>)"

definition empty_multicall_world :: world where
  "empty_multicall_world = gasless_world ''multicall'' [[VArr 1, VNum 9], []] 40000 no_overrides"

definition value_world :: world where
  "value_world = gasless_world ''mint'' [[VNum 9]] 40000 (no_overrides\<lparr>ov_value := Some (Number 1)\<rparr>)"

definition multicall_descriptor :: GaslessTransaction where
  "multicall_descriptor =
    \<lparr>g_from = ''0xf39f'', g_to = ''0x5fbd'',
       g_data = ''multicall:[0x01f39f,0x02f39f];9'', g_chainId = 1,
       g_gasLimit = 700000, g_functionName = ''multicall'',
       g_functionArgs = 2,
       g_callOverrides = no_overrides\<lparr>ov_gasLimit := Some (Number 700000)\<rparr>\<rparr>"

definition empty_multicall_descriptor :: GaslessTransaction where
  "empty_multicall_descriptor =
    \<lparr>g_from = ''0xf39f'', g_to = ''0x5fbd'', g_data = ''multicall:[];9'',
       g_chainId = 1, g_gasLimit = 500000, g_functionName = ''multicall'',
       g_functionArgs = 2, g_callOverrides = no_overrides\<rparr>"

definition plain_gasless_world :: world where
  "plain_gasless_world = gasless_world ''mint'' [[VNum 9]] 80000 no_overrides"

definition plain_descriptor :: GaslessTransaction where
  "plain_descriptor =
    \<lparr>g_from = ''0xf39f'', g_to = ''0x5fbd'', g_data = ''mint:9'',
       g_chainId = 1, g_gasLimit = 160000, g_functionName = ''mint'',
       g_functionArgs = 1, g_callOverrides = no_overrides\<rparr>"

definition estimate_fails_world :: world where
  "estimate_fails_world =
     \<lparr>arrays = [[VNum 5]],
      builders = [sample_tx (sample_contract ''0x5fbd'' (Inr (VBool True))
                    (Inl (Error ''cannot estimate gas'')) (mined ''0xaa'')) ''mint'' 0],
      trace = []\<rparr>"

definition batch_world :: world where
  "batch_world =
     \<lparr>arrays = [[VNum 5]],
      builders = [sample_tx (sample_contract ''0xc1'' (Inr (VBool True)) (Inr 80000) (mined ''0xa1'')) ''mint'' 0,
                  sample_tx (sample_contract ''0xc2'' (Inr (VBool True)) (Inr 80000)
                     (Inl (Error ''nonce too low''))) ''mint'' 0,
                  sample_tx (sample_contract ''0xc3'' (Inr (VBool True)) (Inr 80000) (mined ''0xa3'')) ''mint'' 0],
      trace = []\<rparr>"

definition batch_failure :: TransactionError where
  "batch_failure =
     \<lparr>te_reason = ''nonce too low'', te_from = ''0xf39f'',
           te_to = ''0xc2'', te_method = ''mint(5)'', te_data = ''mint:5'',
           te_network = \<lparr>net_chainId = 1, net_name = ''homestead''\<rparr>,
           te_rpcUrl = Some ''https://rpc.example'', te_value = 0,
           te_hash = None, te_contractName = None, te_sources = None\<rparr>"

definition batch_trace :: "event list" where
  "batch_trace =
     [Ev_getFeeData, Ev_getGasPrice, Ev_estimateGas ''0xc1'' ''mint'',
      Ev_functions ''0xc1'' ''mint'', Ev_wait ''0xa1'', Ev_getFeeData,
      Ev_getGasPrice, Ev_estimateGas ''0xc2'' ''mint'',
      Ev_functions ''0xc2'' ''mint'', Ev_getAddress, Ev_getBalance ''0xf39f'',
      Ev_getNetwork, Ev_getAddress, Ev_fetchContractMetadata ''0xc2'']"

section \<open>The provider cache\<close>

lemma getDefaultProvider_keeps_map:
  "RPC_PROVIDER_MAP (snd (getDefaultProvider throws u s)) = RPC_PROVIDER_MAP s"
  by (simp add: getDefaultProvider_def new_provider_def)

text \<open>An entry of the cache is never replaced and never removed.\<close>

lemma cache_entry_kept:
  assumes "RPC_PROVIDER_MAP s k = Some p"
  shows "RPC_PROVIDER_MAP (snd (getProviderFromRpcUrl throws u n s)) k = Some p"
proof (cases "match_scheme u")
  case None
  then show ?thesis
    using assms by (simp add: getProviderFromRpcUrl_def getDefaultProvider_keeps_map)
next
  case (Some m)
  show ?thesis
  proof (cases "m = ''http'' \<or> m = ''https''")
    case True
    show ?thesis
    proof (cases "RPC_PROVIDER_MAP s (seralizedOpts u n)")
      case None
      then have "k \<noteq> seralizedOpts u n" using assms by auto
      then show ?thesis
        using assms Some True None
        by (simp add: getProviderFromRpcUrl_def getDefaultProvider_keeps_map
            new_provider_def Let_def)
    next
      case (Some e)
      then show ?thesis
        using assms \<open>match_scheme u = Some m\<close> True by (simp add: getProviderFromRpcUrl_def)
    qed
  next
    case False
    then show ?thesis
      using assms Some
      by (simp add: getProviderFromRpcUrl_def getDefaultProvider_keeps_map new_provider_def)
  qed
qed

lemma run_calls_entry_kept:
  "RPC_PROVIDER_MAP s k = Some p \<Longrightarrow> RPC_PROVIDER_MAP (run_calls throws cs s) k = Some p"
proof (induction cs arbitrary: s)
  case Nil
  then show ?case by simp
next
  case (Cons c cs)
  obtain u n where c: "c = (u, n)" by (cases c)
  show ?case
    using Cons.IH [OF cache_entry_kept [OF Cons.prems, of throws u n]] by (simp add: c)
qed

lemma http_call_caches:
  assumes "match_scheme rpcUrl = Some ''http''"
    and "\<not> throws (if chainId \<noteq> None \<and> chainId \<noteq> Some 0
                    then StaticJsonRpcBatchProvider else JsonRpcBatchProvider)
             rpcUrl (if chainId \<noteq> None \<and> chainId \<noteq> Some 0 then chainId else None)"
  shows "\<exists>p. fst (getProviderFromRpcUrl throws rpcUrl chainId s) = Inr p \<and>
     RPC_PROVIDER_MAP (snd (getProviderFromRpcUrl throws rpcUrl chainId s))
       (seralizedOpts rpcUrl chainId) = Some p"
proof (cases "RPC_PROVIDER_MAP s (seralizedOpts rpcUrl chainId)")
  case None
  show ?thesis
  proof (cases "chainId \<noteq> None \<and> chainId \<noteq> Some 0")
    case True
    then have "\<not> throws StaticJsonRpcBatchProvider rpcUrl chainId"
      using assms(2) by auto
    then show ?thesis
      using assms(1) None True
      by (auto simp: getProviderFromRpcUrl_def new_provider_def Let_def)
  next
    case False
    then have "\<not> throws JsonRpcBatchProvider rpcUrl None"
      using assms(2) by auto
    then show ?thesis
      using assms(1) None False
      by (auto simp: getProviderFromRpcUrl_def new_provider_def Let_def)
  qed
next
  case (Some e)
  then show ?thesis using assms by (simp add: getProviderFromRpcUrl_def)
qed

lemma http_cache_hit:
  assumes "match_scheme rpcUrl = Some ''http''"
    and "RPC_PROVIDER_MAP s (seralizedOpts rpcUrl chainId) = Some p"
  shows "getProviderFromRpcUrl throws rpcUrl chainId s = (Inr p, s)"
  using assms by (simp add: getProviderFromRpcUrl_def)

lemma match_scheme_sample_https: "match_scheme ''https://rpc.example'' = Some ''http''"
  by (simp add: match_scheme_def toLowerCase_def toLowerCase_char_def Let_def)

text \<open>
  Claim C1, as the code has it. A call with an \<open>http\<close> or \<open>https\<close> URL that finds
  nothing in the cache constructs one batch provider: a \<open>StaticJsonRpcBatchProvider\<close>
  with the chain id when a chain id other than 0 is given, a \<open>JsonRpcBatchProvider\<close>
  without chain id otherwise. When that one constructor does not throw, the first
  call returns a provider \<open>p\<close>, and a later call with the same URL and the same chain
  id, whatever calls came in between, returns the same object \<open>p\<close> (the same handle)
  and leaves the module state as it was: nothing is constructed.
\<close>

theorem cached_http_provider_is_reused:
  assumes "match_scheme rpcUrl = Some ''http''"
    and "\<not> throws (if chainId \<noteq> None \<and> chainId \<noteq> Some 0
                    then StaticJsonRpcBatchProvider else JsonRpcBatchProvider)
             rpcUrl (if chainId \<noteq> None \<and> chainId \<noteq> Some 0 then chainId else None)"
  shows "\<exists>p. fst (getProviderFromRpcUrl throws rpcUrl chainId s) = Inr p
     \<and> getProviderFromRpcUrl throws rpcUrl chainId
         (run_calls throws between (snd (getProviderFromRpcUrl throws rpcUrl chainId s)))
       = (Inr p, run_calls throws between (snd (getProviderFromRpcUrl throws rpcUrl chainId s)))"
proof -
  obtain p where p: "fst (getProviderFromRpcUrl throws rpcUrl chainId s) = Inr p"
    and c: "RPC_PROVIDER_MAP (snd (getProviderFromRpcUrl throws rpcUrl chainId s))
              (seralizedOpts rpcUrl chainId) = Some p"
    using http_call_caches [where throws = throws and rpcUrl = rpcUrl and chainId = chainId,
        OF assms]
    by blast
  have "RPC_PROVIDER_MAP
          (run_calls throws between (snd (getProviderFromRpcUrl throws rpcUrl chainId s)))
          (seralizedOpts rpcUrl chainId) = Some p"
    by (rule run_calls_entry_kept [OF c])
  then show ?thesis using p http_cache_hit [OF assms(1)] by blast
qed

text \<open>
  A run where \<open>StaticJsonRpcBatchProvider\<close> is the only class that can be constructed,
  with a \<open>wss\<close> call and an \<open>https\<close> call to another URL between the two calls.
\<close>

theorem cached_http_provider_is_reused_witness:
  "match_scheme ''https://rpc.example'' = Some ''http''
   \<and> \<not> static_only StaticJsonRpcBatchProvider ''https://rpc.example'' (Some 137)
   \<and> static_only JsonRpcBatchProvider ''https://rpc.example'' None
   \<and> fst (getProviderFromRpcUrl static_only ''https://rpc.example'' (Some 137)
            initial_module_state)
       = Inr \<lparr>handle = 0, cls = StaticJsonRpcBatchProvider, url = ''https://rpc.example'',
               network = Some 137\<rparr>
   \<and> fst (getProviderFromRpcUrl static_only ''https://rpc.example'' (Some 137)
            (run_calls static_only
               [(''wss://node.example'', Some 1), (''https://other.example'', Some 1)]
               (snd (getProviderFromRpcUrl static_only ''https://rpc.example'' (Some 137)
                       initial_module_state))))
       = Inr \<lparr>handle = 0, cls = StaticJsonRpcBatchProvider, url = ''https://rpc.example'',
               network = Some 137\<rparr>"
proof -
  have first_call:
    "fst (getProviderFromRpcUrl static_only ''https://rpc.example'' (Some 137)
            initial_module_state)
       = Inr \<lparr>handle = 0, cls = StaticJsonRpcBatchProvider, url = ''https://rpc.example'',
               network = Some 137\<rparr>"
    by (simp add: getProviderFromRpcUrl_def match_scheme_sample_https static_only_def
        new_provider_def initial_module_state_def Let_def)
  have h2: "\<not> static_only
               (if Some (137 :: int) \<noteq> None \<and> Some (137 :: int) \<noteq> Some 0
                then StaticJsonRpcBatchProvider else JsonRpcBatchProvider)
               ''https://rpc.example''
               (if Some (137 :: int) \<noteq> None \<and> Some (137 :: int) \<noteq> Some 0
                then Some 137 else None)"
    by (simp add: static_only_def)
  have h3: "static_only JsonRpcBatchProvider ''https://rpc.example'' None"
    by (simp add: static_only_def)
  show ?thesis
    using cached_http_provider_is_reused [where throws = static_only
          and rpcUrl = "''https://rpc.example''" and chainId = "Some 137"
          and s = initial_module_state
          and between = "[(''wss://node.example'', Some 1), (''https://other.example'', Some 1)]",
        OF match_scheme_sample_https h2]
      first_call match_scheme_sample_https h2 h3
    by auto
qed

text \<open>
  Claim C1 as stated fails: for the URL \<open>wss://node.example\<close> and the chain id 1, with
  constructors that do not throw, the second call returns another object than the
  first call did.
\<close>

theorem websocket_provider_not_reused:
  "fst (getProviderFromRpcUrl never_throws ''wss://node.example'' (Some 1)
         (snd (getProviderFromRpcUrl never_throws ''wss://node.example'' (Some 1)
                 initial_module_state)))
   \<noteq> fst (getProviderFromRpcUrl never_throws ''wss://node.example'' (Some 1)
           initial_module_state)"
  by (simp add: getProviderFromRpcUrl_def match_scheme_def toLowerCase_def toLowerCase_char_def
      Let_def never_throws_def new_provider_def initial_module_state_def)

section \<open>The fee policy\<close>

lemma bn_div_nonneg: "0 \<le> p \<Longrightarrow> bn_div p 100 = p div 100"
  by (simp add: bn_div_def sgn_if)

text \<open>The buffer \<open>p + (p / 100) * 10\<close> differs from \<open>1.1 * p\<close> by less than ten units.\<close>

lemma buffer_close: "\<bar>11 * p - 10 * (p + bn_div p 100 * 10)\<bar> \<le> 99"
  unfolding bn_div_def sgn_if by (cases "p < 0"; simp; presburger)

lemma getPreferredPriorityFee_clamp:
  "getPreferredPriorityFee p =
     max parseUnits_2_5_gwei (min parseUnits_300_gwei (p + bn_div p 100 * 10))"
  by (simp add: getPreferredPriorityFee_def Let_def parseUnits_2_5_gwei_def
      parseUnits_300_gwei_def gwei_def max_def min_def)

lemma getPreferredPriorityFee_1_gwei: "getPreferredPriorityFee (1 * gwei) = 2500000000"
  by (simp add: getPreferredPriorityFee_def Let_def parseUnits_2_5_gwei_def
      parseUnits_300_gwei_def gwei_def bn_div_def)

lemma getPreferredPriorityFee_1000_gwei: "getPreferredPriorityFee (1000 * gwei) = 300000000000"
  by (simp add: getPreferredPriorityFee_def Let_def parseUnits_2_5_gwei_def
      parseUnits_300_gwei_def gwei_def bn_div_def)

text \<open>
  The priority fee computed from a fee \<open>p\<close> lies in \<open>[2.5 gwei, 300 gwei]\<close>.
\<close>

lemma getPreferredPriorityFee_bounds:
  "2500000000 \<le> getPreferredPriorityFee p \<and> getPreferredPriorityFee p \<le> 300000000000"
  by (simp add: getPreferredPriorityFee_clamp parseUnits_2_5_gwei_def parseUnits_300_gwei_def
      gwei_def)

text \<open>
  The fee-market branch of \<open>getGasOverrides\<close>: outside the browser, when the fee data
  has both a maximum fee and a priority fee.
\<close>

lemma getGasOverrides_fee_market:
  assumes nb: "\<not> isBrowser env"
    and lt: "this < length (builders w)" and t: "t = builders w ! this"
    and fd: "p_getFeeData (provider t) = Inr feeData"
    and mf: "fd_maxFeePerGas feeData = Some reportedMaxFee"
    and mp: "fd_maxPriorityFeePerGas feeData = Some reportedPriorityFee"
    and net: "p_getNetwork (provider t) = Inr net"
    and blk: "p_getBlock_latest (provider t) = Inr block"
    and src: "(if net_chainId net = ChainId_Mumbai env \<or> net_chainId net = ChainId_Polygon env
               then getPolygonGasPriorityFee env (net_chainId net)
               else Inr reportedPriorityFee) = Inr priorityFee"
  shows "fst (getGasOverrides env this w) =
     Inr (no_overrides
            \<lparr>ov_maxFeePerGas :=
               Some (BigNumber
                 (2 * (case block of
                         None \<Rightarrow> 1000000000
                       | Some b \<Rightarrow> (case baseFeePerGas b of None \<Rightarrow> 1000000000 | Some fee \<Rightarrow> fee))
                  + getPreferredPriorityFee priorityFee)),
             ov_maxPriorityFeePerGas := Some (BigNumber (getPreferredPriorityFee priorityFee))\<rparr>)"
  using assms
  by (auto simp: getGasOverrides_def bnd_def this_builder_def call_def attempt_def lib_def ret_def
      throw_def Let_def parseUnits_1_gwei_def gwei_def
      split: option.splits if_splits)

text \<open>
  Claim C2, as the code has it. Outside the browser, on a network whose fee data has
  both fee-market fields and whose chain id is neither Mumbai's nor Polygon's, the
  priority fee that \<open>getGasOverrides\<close> attaches for a reported priority fee \<open>p\<close> is
  \<open>p + (p / 100) * 10\<close>, the division truncating, clamped to \<open>[2.5 gwei, 300 gwei]\<close>.
  That buffered fee is within 99/10 of \<open>1.1 * p\<close>, and need not equal it. A reported
  1 gwei gives exactly 2.5 gwei and a reported 1000 gwei gives exactly 300 gwei.
\<close>

theorem fee_policy_priority_fee_buffered_then_clamped:
  assumes nb: "\<not> isBrowser env"
    and lt: "this < length (builders w)" and t: "t = builders w ! this"
    and fd: "p_getFeeData (provider t) = Inr feeData"
    and mf: "fd_maxFeePerGas feeData = Some reportedMaxFee"
    and mp: "fd_maxPriorityFeePerGas feeData = Some p"
    and net: "p_getNetwork (provider t) = Inr net"
    and not_mumbai: "net_chainId net \<noteq> ChainId_Mumbai env"
    and not_polygon: "net_chainId net \<noteq> ChainId_Polygon env"
    and blk: "p_getBlock_latest (provider t) = Inr block"
  shows "\<exists>overrides'. fst (getGasOverrides env this w) = Inr overrides'
     \<and> ov_maxPriorityFeePerGas overrides'
         = Some (BigNumber (max 2500000000 (min 300000000000 (p + bn_div p 100 * 10))))
     \<and> \<bar>11 * p - 10 * (p + bn_div p 100 * 10)\<bar> \<le> 99
     \<and> (p = 1000000000
          \<longrightarrow> ov_maxPriorityFeePerGas overrides' = Some (BigNumber 2500000000))
     \<and> (p = 1000000000000
          \<longrightarrow> ov_maxPriorityFeePerGas overrides' = Some (BigNumber 300000000000))"
proof -
  have src: "(if net_chainId net = ChainId_Mumbai env \<or> net_chainId net = ChainId_Polygon env
               then getPolygonGasPriorityFee env (net_chainId net)
               else Inr p) = Inr p"
    using not_mumbai not_polygon by simp
  have run: "fst (getGasOverrides env this w) =
     Inr (no_overrides
            \<lparr>ov_maxFeePerGas :=
               Some (BigNumber
                 (2 * (case block of
                         None \<Rightarrow> 1000000000
                       | Some b \<Rightarrow> (case baseFeePerGas b of None \<Rightarrow> 1000000000 | Some fee \<Rightarrow> fee))
                  + getPreferredPriorityFee p)),
             ov_maxPriorityFeePerGas := Some (BigNumber (getPreferredPriorityFee p))\<rparr>)"
    by (rule getGasOverrides_fee_market [OF nb lt t fd mf mp net blk src])
  have clamp: "getPreferredPriorityFee p
                 = max 2500000000 (min 300000000000 (p + bn_div p 100 * 10))"
    by (simp add: getPreferredPriorityFee_clamp parseUnits_2_5_gwei_def parseUnits_300_gwei_def
        gwei_def)
  have one: "p = 1000000000 \<longrightarrow> getPreferredPriorityFee p = 2500000000"
    using getPreferredPriorityFee_1_gwei by (simp add: gwei_def)
  have thousand: "p = 1000000000000 \<longrightarrow> getPreferredPriorityFee p = 300000000000"
    using getPreferredPriorityFee_1000_gwei by (simp add: gwei_def)
  define result where "result = no_overrides
            \<lparr>ov_maxFeePerGas :=
               Some (BigNumber
                 (2 * (case block of
                         None \<Rightarrow> 1000000000
                       | Some b \<Rightarrow> (case baseFeePerGas b of None \<Rightarrow> 1000000000 | Some fee \<Rightarrow> fee))
                  + getPreferredPriorityFee p)),
             ov_maxPriorityFeePerGas := Some (BigNumber (getPreferredPriorityFee p))\<rparr>"
  have r: "fst (getGasOverrides env this w) = Inr result"
    using run by (simp add: result_def)
  have prio: "ov_maxPriorityFeePerGas result = Some (BigNumber (getPreferredPriorityFee p))"
    by (simp add: result_def)
  have clamped: "ov_maxPriorityFeePerGas result
         = Some (BigNumber (max 2500000000 (min 300000000000 (p + bn_div p 100 * 10))))"
    using prio clamp by simp
  have floor_case: "p = 1000000000
          \<longrightarrow> ov_maxPriorityFeePerGas result = Some (BigNumber 2500000000)"
    using prio one by simp
  have ceiling_case: "p = 1000000000000
          \<longrightarrow> ov_maxPriorityFeePerGas result = Some (BigNumber 300000000000)"
    using prio thousand by simp
  show ?thesis
    using r clamped buffer_close [of p] floor_case ceiling_case by blast
qed

lemma priority_fee_world_builder:
  "0 < length (builders (priority_fee_world r))
   \<and> p_getFeeData (provider (builders (priority_fee_world r) ! 0))
       = Inr \<lparr>fd_maxFeePerGas = Some 3500000000, fd_maxPriorityFeePerGas = Some r,
              fd_gasPrice = Some 1000000099\<rparr>
   \<and> p_getNetwork (provider (builders (priority_fee_world r) ! 0))
       = Inr \<lparr>net_chainId = 1, net_name = ''homestead''\<rparr>
   \<and> p_getBlock_latest (provider (builders (priority_fee_world r) ! 0))
       = Inr (Some \<lparr>baseFeePerGas = None\<rparr>)"
  by (simp add: priority_fee_world_def sample_tx_def sample_provider_def)

lemma sample_env_chains:
  "\<not> isBrowser sample_env \<and> ChainId_Mumbai sample_env = 80001
   \<and> ChainId_Polygon sample_env = 137"
  by (simp add: sample_env_def)

lemma priority_fee_run:
  "fst (getGasOverrides sample_env 0 (priority_fee_world r)) =
     Inr (no_overrides
            \<lparr>ov_maxFeePerGas := Some (BigNumber (2000000000 + getPreferredPriorityFee r)),
             ov_maxPriorityFeePerGas := Some (BigNumber (getPreferredPriorityFee r))\<rparr>)"
proof -
  have src: "(if net_chainId \<lparr>net_chainId = 1, net_name = ''homestead''\<rparr> = ChainId_Mumbai sample_env
                 \<or> net_chainId \<lparr>net_chainId = 1, net_name = ''homestead''\<rparr>
                     = ChainId_Polygon sample_env
               then getPolygonGasPriorityFee sample_env
                      (net_chainId \<lparr>net_chainId = 1, net_name = ''homestead''\<rparr>)
               else Inr r) = Inr r"
    by (simp add: sample_env_chains)
  show ?thesis
    using getGasOverrides_fee_market [where env = sample_env and this = 0
        and w = "priority_fee_world r" and reportedMaxFee = 3500000000
        and block = "Some \<lparr>baseFeePerGas = None\<rparr>",
        OF _ _ refl _ _ _ _ _ src]
      sample_env_chains priority_fee_world_builder [of r]
    by simp
qed

lemma getPreferredPriorityFee_near_cap: "getPreferredPriorityFee 272727272728 = 299999999998"
  by (simp add: getPreferredPriorityFee_def Let_def parseUnits_2_5_gwei_def
      parseUnits_300_gwei_def gwei_def bn_div_def)

theorem fee_policy_priority_fee_buffered_then_clamped_witness:
  "\<not> isBrowser sample_env
   \<and> p_getFeeData (provider (builders (priority_fee_world 1000000000) ! 0))
       = Inr \<lparr>fd_maxFeePerGas = Some 3500000000, fd_maxPriorityFeePerGas = Some 1000000000,
              fd_gasPrice = Some 1000000099\<rparr>
   \<and> p_getNetwork (provider (builders (priority_fee_world 1000000000) ! 0))
       = Inr \<lparr>net_chainId = 1, net_name = ''homestead''\<rparr>
   \<and> (1 :: int) \<noteq> ChainId_Mumbai sample_env
   \<and> (1 :: int) \<noteq> ChainId_Polygon sample_env
   \<and> fst (getGasOverrides sample_env 0 (priority_fee_world 1000000000))
       = Inr (no_overrides\<lparr>ov_maxFeePerGas := Some (BigNumber 4500000000),
                            ov_maxPriorityFeePerGas := Some (BigNumber 2500000000)\<rparr>)
   \<and> p_getFeeData (provider (builders (priority_fee_world 1000000000000) ! 0))
       = Inr \<lparr>fd_maxFeePerGas = Some 3500000000,
              fd_maxPriorityFeePerGas = Some 1000000000000,
              fd_gasPrice = Some 1000000099\<rparr>
   \<and> fst (getGasOverrides sample_env 0 (priority_fee_world 1000000000000))
       = Inr (no_overrides\<lparr>ov_maxFeePerGas := Some (BigNumber 302000000000),
                            ov_maxPriorityFeePerGas := Some (BigNumber 300000000000)\<rparr>)"
proof -
  have one: "getPreferredPriorityFee 1000000000 = 2500000000"
    using getPreferredPriorityFee_1_gwei by (simp add: gwei_def)
  have thousand: "getPreferredPriorityFee 1000000000000 = 300000000000"
    using getPreferredPriorityFee_1000_gwei by (simp add: gwei_def)
  show ?thesis
    using fee_policy_priority_fee_buffered_then_clamped [where env = sample_env and this = 0
        and w = "priority_fee_world 1000000000" and p = 1000000000
        and reportedMaxFee = 3500000000
        and net = "\<lparr>net_chainId = 1, net_name = ''homestead''\<rparr>"
        and block = "Some \<lparr>baseFeePerGas = None\<rparr>", OF _ _ refl]
      fee_policy_priority_fee_buffered_then_clamped [where env = sample_env and this = 0
        and w = "priority_fee_world 1000000000000" and p = 1000000000000
        and reportedMaxFee = 3500000000
        and net = "\<lparr>net_chainId = 1, net_name = ''homestead''\<rparr>"
        and block = "Some \<lparr>baseFeePerGas = None\<rparr>", OF _ _ refl]
      sample_env_chains priority_fee_world_builder [of 1000000000]
      priority_fee_world_builder [of 1000000000000]
      priority_fee_run [of 1000000000] priority_fee_run [of 1000000000000] one thousand
    by simp
qed

text \<open>
  Claim C2 as stated fails: for a reported priority fee of 272727272728, 1.1 times
  the fee is 300000000000.8, above 300 gwei, so the fee buffered by 10 percent and
  then clamped is 300 gwei; the fee attached is 299999999998.
\<close>

theorem priority_fee_below_exact_buffer:
  "fst (getGasOverrides sample_env 0 (priority_fee_world 272727272728))
     = Inr (no_overrides\<lparr>ov_maxFeePerGas := Some (BigNumber 301999999998),
                          ov_maxPriorityFeePerGas := Some (BigNumber 299999999998)\<rparr>)
   \<and> (10 * 300000000000 :: int) < 11 * 272727272728
   \<and> (299999999998 :: int) < 300000000000"
  using priority_fee_run [of 272727272728] getPreferredPriorityFee_near_cap by simp

lemma getGasPrice_run:
  assumes "this < length (builders w)"
    and "p_getGasPrice (provider (builders w ! this)) = Inr p"
  shows "getGasPrice this w =
     (Inr (min (p + bn_div p 100 * 10) parseUnits_300_gwei),
      w\<lparr>trace := trace w @ [Ev_getGasPrice]\<rparr>)"
  using assms
  by (simp add: getGasPrice_def bnd_def this_builder_def call_def attempt_def lib_def ret_def
      Let_def min_def)

text \<open>
  Claim C3, as the code has it. On the legacy path, for a reported gas price \<open>p\<close>,
  \<open>getGasPrice\<close> returns the smaller of the buffered price \<open>p + (p / 100) * 10\<close> and
  300 gwei. So it is at most 300 gwei, and exactly 300 gwei when the buffered price
  exceeds that; no floor is applied. For \<open>p\<close> not negative the buffered price is at
  least \<open>p\<close> and at most \<open>1.1 * p\<close>, below it by less than ten units.
\<close>

theorem legacy_gas_price_buffered_and_capped:
  assumes "this < length (builders w)"
    and "p_getGasPrice (provider (builders w ! this)) = Inr p"
  shows "fst (getGasPrice this w) = Inr (min (p + bn_div p 100 * 10) (300 * gwei))
     \<and> min (p + bn_div p 100 * 10) (300 * gwei) \<le> 300 * gwei
     \<and> (300 * gwei < p + bn_div p 100 * 10 \<longrightarrow> fst (getGasPrice this w) = Inr (300 * gwei))
     \<and> (p + bn_div p 100 * 10 \<le> 300 * gwei
          \<longrightarrow> fst (getGasPrice this w) = Inr (p + bn_div p 100 * 10))
     \<and> (0 \<le> p \<longrightarrow> p \<le> p + bn_div p 100 * 10
                    \<and> 11 * p - 99 \<le> 10 * (p + bn_div p 100 * 10)
                    \<and> 10 * (p + bn_div p 100 * 10) \<le> 11 * p)"
proof -
  have run: "fst (getGasPrice this w) = Inr (min (p + bn_div p 100 * 10) (300 * gwei))"
    using getGasPrice_run [OF assms] by (simp add: parseUnits_300_gwei_def)
  have close: "0 \<le> p \<longrightarrow> p \<le> p + bn_div p 100 * 10
                    \<and> 11 * p - 99 \<le> 10 * (p + bn_div p 100 * 10)
                    \<and> 10 * (p + bn_div p 100 * 10) \<le> 11 * p"
    by (simp add: bn_div_nonneg) presburger
  show ?thesis using run close by (simp add: min_def)
qed

lemma legacy_world_price:
  "0 < length (builders legacy_world)
   \<and> p_getGasPrice (provider (builders legacy_world ! 0)) = Inr 1000000099"
  by (simp add: legacy_world_def sample_tx_def sample_provider_def)

theorem legacy_gas_price_buffered_and_capped_witness:
  "0 < length (builders legacy_world)
   \<and> p_getGasPrice (provider (builders legacy_world ! 0)) = Inr 1000000099
   \<and> fst (getGasPrice 0 legacy_world) = Inr 1100000099"
  using legacy_gas_price_buffered_and_capped [of 0 legacy_world 1000000099] legacy_world_price
  by (simp add: bn_div_def gwei_def)

text \<open>
  Claim C3 as stated fails: for a reported price of 1000000099 the returned price is
  1100000099, which is less than 1.1 times the reported price (1100000108.9).
\<close>

theorem legacy_gas_price_below_exact_buffer:
  "fst (getGasPrice 0 legacy_world) = Inr 1100000099
   \<and> (10 * 1100000099 :: int) < 11 * 1000000099"
  using getGasPrice_run [of 0 legacy_world 1000000099] legacy_world_price
  by (simp add: bn_div_def parseUnits_300_gwei_def gwei_def)

text \<open>
  Claim C4. Outside the browser, when the fee data of the network has both a maximum
  fee and a priority fee, \<open>getGasOverrides\<close> returns \<open>maxFeePerGas\<close> equal to twice the
  base fee of the latest block plus the buffered and clamped priority fee, where the
  base fee is 1 gwei when there is no latest block or it carries no base fee. The
  priority fee that is buffered is the gas station's on Mumbai and Polygon and the
  reported one elsewhere.
\<close>

theorem fee_market_max_fee_per_gas:
  assumes nb: "\<not> isBrowser env"
    and lt: "this < length (builders w)" and t: "t = builders w ! this"
    and fd: "p_getFeeData (provider t) = Inr feeData"
    and mf: "fd_maxFeePerGas feeData = Some reportedMaxFee"
    and mp: "fd_maxPriorityFeePerGas feeData = Some reportedPriorityFee"
    and net: "p_getNetwork (provider t) = Inr net"
    and blk: "p_getBlock_latest (provider t) = Inr block"
    and src: "(if net_chainId net = ChainId_Mumbai env \<or> net_chainId net = ChainId_Polygon env
               then getPolygonGasPriorityFee env (net_chainId net)
               else Inr reportedPriorityFee) = Inr priorityFee"
  shows "fst (getGasOverrides env this w) =
     Inr (no_overrides
            \<lparr>ov_maxFeePerGas :=
               Some (BigNumber
                 (2 * (case block of
                         None \<Rightarrow> 1000000000
                       | Some b \<Rightarrow> (case baseFeePerGas b of None \<Rightarrow> 1000000000 | Some fee \<Rightarrow> fee))
                  + getPreferredPriorityFee priorityFee)),
             ov_maxPriorityFeePerGas := Some (BigNumber (getPreferredPriorityFee priorityFee))\<rparr>)"
  by (rule getGasOverrides_fee_market [OF assms])

lemma fee_market_world_builder:
  "0 < length (builders (fee_market_world base))
   \<and> p_getFeeData (provider (builders (fee_market_world base) ! 0))
       = Inr \<lparr>fd_maxFeePerGas = Some 3500000000, fd_maxPriorityFeePerGas = Some 1500000000,
              fd_gasPrice = Some 1000000099\<rparr>
   \<and> p_getNetwork (provider (builders (fee_market_world base) ! 0))
       = Inr \<lparr>net_chainId = 1, net_name = ''homestead''\<rparr>
   \<and> p_getBlock_latest (provider (builders (fee_market_world base) ! 0))
       = Inr (Some \<lparr>baseFeePerGas = base\<rparr>)"
  by (simp add: fee_market_world_def fee_market_provider_def sample_tx_def sample_provider_def)

theorem fee_market_max_fee_per_gas_witness:
  "\<not> isBrowser sample_env
   \<and> p_getFeeData (provider (builders (fee_market_world None) ! 0))
       = Inr \<lparr>fd_maxFeePerGas = Some 3500000000, fd_maxPriorityFeePerGas = Some 1500000000,
              fd_gasPrice = Some 1000000099\<rparr>
   \<and> p_getBlock_latest (provider (builders (fee_market_world None) ! 0))
       = Inr (Some \<lparr>baseFeePerGas = None\<rparr>)
   \<and> fst (getGasOverrides sample_env 0 (fee_market_world None))
       = Inr (no_overrides\<lparr>ov_maxFeePerGas := Some (BigNumber 4500000000),
                            ov_maxPriorityFeePerGas := Some (BigNumber 2500000000)\<rparr>)
   \<and> p_getBlock_latest (provider (builders (fee_market_world (Some 30000000000)) ! 0))
       = Inr (Some \<lparr>baseFeePerGas = Some 30000000000\<rparr>)
   \<and> fst (getGasOverrides sample_env 0 (fee_market_world (Some 30000000000)))
       = Inr (no_overrides\<lparr>ov_maxFeePerGas := Some (BigNumber 62500000000),
                            ov_maxPriorityFeePerGas := Some (BigNumber 2500000000)\<rparr>)"
proof -
  have nb: "\<not> isBrowser sample_env" by (simp add: sample_env_def)
  have src: "(if net_chainId \<lparr>net_chainId = 1, net_name = ''homestead''\<rparr> = ChainId_Mumbai sample_env
                 \<or> net_chainId \<lparr>net_chainId = 1, net_name = ''homestead''\<rparr>
                     = ChainId_Polygon sample_env
               then getPolygonGasPriorityFee sample_env
                      (net_chainId \<lparr>net_chainId = 1, net_name = ''homestead''\<rparr>)
               else Inr 1500000000) = Inr 1500000000"
    by (simp add: sample_env_def)
  have pf: "getPreferredPriorityFee 1500000000 = 2500000000"
    by (simp add: getPreferredPriorityFee_def Let_def parseUnits_2_5_gwei_def
      parseUnits_300_gwei_def gwei_def bn_div_def)
  show ?thesis
    using fee_market_max_fee_per_gas [where env = sample_env and this = 0
        and w = "fee_market_world None" and reportedMaxFee = 3500000000
        and block = "Some \<lparr>baseFeePerGas = None\<rparr>",
        OF nb _ refl _ _ _ _ _ src]
      fee_market_max_fee_per_gas [where env = sample_env and this = 0
        and w = "fee_market_world (Some 30000000000)" and reportedMaxFee = 3500000000
        and block = "Some \<lparr>baseFeePerGas = Some 30000000000\<rparr>",
        OF nb _ refl _ _ _ _ _ src]
      nb fee_market_world_builder [of None] fee_market_world_builder [of "Some 30000000000"] pf
    by simp
qed

section \<open>Frame rules\<close>

lemma keepsI:
  assumes "\<And>w r w'. builders w = bs \<Longrightarrow> n \<le> length (arrays w) \<Longrightarrow> m w = (r, w') \<Longrightarrow>
      builders w' = bs \<and> take n (arrays w') = take n (arrays w)
             \<and> length (arrays w) \<le> length (arrays w')
             \<and> (\<exists>evs. trace w' = trace w @ evs \<and> list_all P evs)
             \<and> (case r of Inr x \<Rightarrow> Q x | Inl e \<Rightarrow> True)"
  shows "keeps bs n P m Q"
  unfolding keeps_def using assms by (auto split: prod.splits)

lemma keepsD:
  assumes "keeps bs n P m Q" "builders w = bs" "n \<le> length (arrays w)" "m w = (r, w')"
  shows "builders w' = bs" "take n (arrays w') = take n (arrays w)"
     "length (arrays w) \<le> length (arrays w')"
     "\<exists>evs. trace w' = trace w @ evs \<and> list_all P evs"
     "case r of Inr x \<Rightarrow> Q x | Inl e \<Rightarrow> True"
  using assms unfolding keeps_def by (auto split: prod.splits)

lemma keeps_ret: "Q x \<Longrightarrow> keeps bs n P (ret x) Q"
  by (rule keepsI) (auto simp: ret_def)

lemma keeps_throw: "keeps bs n P (throw e) Q"
  by (rule keepsI) (auto simp: throw_def)

lemma keeps_bnd:
  assumes m: "keeps bs n P m Q" and f: "\<And>x. Q x \<Longrightarrow> keeps bs n P (f x) R"
  shows "keeps bs n P (bnd m f) R"
proof (rule keepsI)
  fix w r w'
  assume bs: "builders w = bs" and n: "n \<le> length (arrays w)" and run: "bnd m f w = (r, w')"
  obtain r1 w1 where m1: "m w = (r1, w1)" by (cases "m w")
  note k1 = keepsD [OF m bs n m1]
  show "builders w' = bs \<and> take n (arrays w') = take n (arrays w)
             \<and> length (arrays w) \<le> length (arrays w')
             \<and> (\<exists>evs. trace w' = trace w @ evs \<and> list_all P evs)
             \<and> (case r of Inr x \<Rightarrow> R x | Inl e \<Rightarrow> True)"
  proof (cases r1)
    case (Inl e)
    then have "r = Inl e" "w' = w1" using run m1 by (auto simp: bnd_def)
    then show ?thesis using k1 by simp
  next
    case (Inr x)
    then have fx: "f x w1 = (r, w')" using run m1 by (simp add: bnd_def)
    have qx: "Q x" using k1(5) Inr by simp
    have n1: "n \<le> length (arrays w1)" using n k1(3) by simp
    note k2 = keepsD [OF f [OF qx] k1(1) n1 fx]
    obtain e1 where e1: "trace w1 = trace w @ e1" "list_all P e1" using k1(4) by blast
    obtain e2 where e2: "trace w' = trace w1 @ e2" "list_all P e2" using k2(4) by blast
    have "trace w' = trace w @ (e1 @ e2) \<and> list_all P (e1 @ e2)" using e1 e2 by simp
    then have "\<exists>evs. trace w' = trace w @ evs \<and> list_all P evs" by blast
    then show ?thesis using k1 k2 by simp
  qed
qed

lemma keeps_weaken:
  assumes m: "keeps bs n P m Q" and qr: "\<And>x. Q x \<Longrightarrow> R x"
  shows "keeps bs n P m R"
proof (rule keepsI)
  fix w r w'
  assume bs: "builders w = bs" and n: "n \<le> length (arrays w)" and run: "m w = (r, w')"
  note k = keepsD [OF m bs n run]
  have "case r of Inr x \<Rightarrow> R x | Inl e \<Rightarrow> True"
    using k(5) qr by (cases r) simp_all
  then show "builders w' = bs \<and> take n (arrays w') = take n (arrays w)
             \<and> length (arrays w) \<le> length (arrays w')
             \<and> (\<exists>evs. trace w' = trace w @ evs \<and> list_all P evs)
             \<and> (case r of Inr x \<Rightarrow> R x | Inl e \<Rightarrow> True)"
    using k by simp
qed

lemma keeps_attempt: "P ev \<Longrightarrow> keeps bs n P (attempt ev r) (\<lambda>x. x = r)"
  by (rule keepsI) (auto simp: attempt_def)

lemma keeps_lib: "keeps bs n P (lib r) (\<lambda>x. r = Inr x)"
  by (rule keepsI) (auto simp: lib_def ret_def throw_def split: sum.splits)

lemma keeps_call:
  assumes P: "P ev"
  shows "keeps bs n P (call ev r) (\<lambda>x. r = Inr x)"
  unfolding call_def
proof (rule keeps_bnd [OF keeps_attempt [where P = P, OF P]])
  fix x :: "raw_error + 'a"
  assume "x = r"
  then show "keeps bs n P (lib x) (\<lambda>x. r = Inr x)" by (simp add: keeps_lib)
qed

lemma keeps_get_arrays: "keeps bs n P get_arrays (\<lambda>x. True)"
  by (rule keepsI) (auto simp: get_arrays_def)

lemma keeps_deref: "keeps bs n P (deref a) (\<lambda>x. True)"
  by (rule keepsI) (auto simp: deref_def)

lemma keeps_new_array: "keeps bs n P (new_array xs) (\<lambda>a. n \<le> a)"
  by (rule keepsI) (auto simp: new_array_def)

lemma keeps_set_index0: "n \<le> a \<Longrightarrow> keeps bs n P (set_index0 a v) (\<lambda>x. True)"
  by (rule keepsI) (auto simp: set_index0_def)

lemma keeps_this_builder:
  "keeps bs n P (this_builder this) (\<lambda>t. this < length bs \<and> t = bs ! this)"
  by (rule keepsI) (auto simp: this_builder_def split: if_splits)

lemma keeps_True: "keeps bs n P m Q \<Longrightarrow> keeps bs n P m (\<lambda>x. True)"
  by (erule keeps_weaken) simp

lemma keeps_getSignerAddress:
  assumes P: "P Ev_getAddress"
  shows "keeps bs n P (getSignerAddress this) (\<lambda>a. True)"
  unfolding getSignerAddress_def
  by (rule keeps_bnd [OF keeps_this_builder], rule keeps_True,
      rule keeps_call [where P = P, OF P])

lemma keeps_from_or_signer:
  assumes P: "P Ev_getAddress"
  shows "keeps bs n P (from_or_signer ov this) (\<lambda>a. True)"
  unfolding from_or_signer_def
  using keeps_getSignerAddress [where P = P, OF P]
  by (simp add: keeps_ret split: option.splits)

lemma keeps_gasless_args:
  assumes P: "P Ev_getAddress"
  shows "keeps bs n P (gasless_args env this) (\<lambda>a. n \<le> a)"
  unfolding gasless_args_def
proof (rule keeps_bnd [OF keeps_this_builder], rule keeps_bnd [OF keeps_deref],
    rule keeps_bnd [OF keeps_new_array], rule keeps_bnd [OF keeps_deref])
  fix t this_args args' argv
  assume a: "n \<le> (args' :: nat)"
  have inner: "keeps bs n P
          (bnd (deref a0) (\<lambda>inner.
                if length inner > 0 then
                  bnd (getSignerAddress this) (\<lambda>from.
                  bnd (lib (map_pack (\<lambda>tx. solidityPack_bytes_address env tx from) inner))
                    (\<lambda>packed.
                  bnd (new_array packed) (\<lambda>a1.
                  bnd (set_index0 args' (VArr a1)) (\<lambda>u. ret args'))))
                else ret args')) (\<lambda>a. n \<le> a)" for a0
  proof (rule keeps_bnd [OF keeps_deref])
    fix inner :: "val list"
    show "keeps bs n P (if length inner > 0 then
                  bnd (getSignerAddress this) (\<lambda>from.
                  bnd (lib (map_pack (\<lambda>tx. solidityPack_bytes_address env tx from) inner))
                    (\<lambda>packed.
                  bnd (new_array packed) (\<lambda>a1.
                  bnd (set_index0 args' (VArr a1)) (\<lambda>u. ret args'))))
                else ret args') (\<lambda>a. n \<le> a)"
    proof (cases "length inner > 0")
      case True
      have "keeps bs n P (bnd (getSignerAddress this) (\<lambda>from.
                  bnd (lib (map_pack (\<lambda>tx. solidityPack_bytes_address env tx from) inner))
                    (\<lambda>packed.
                  bnd (new_array packed) (\<lambda>a1.
                  bnd (set_index0 args' (VArr a1)) (\<lambda>u. ret args'))))) (\<lambda>a. n \<le> a)"
        by (rule keeps_bnd [OF keeps_getSignerAddress [where P = P, OF P]],
            rule keeps_bnd [OF keeps_lib], rule keeps_bnd [OF keeps_new_array],
            rule keeps_bnd [OF keeps_set_index0 [OF a]], rule keeps_ret, rule a)
      then show ?thesis using True by simp
    next
      case False
      then show ?thesis using a by (simp add: keeps_ret)
    qed
  qed
  show "keeps bs n P
          (if method_name t = ''multicall'' \<and> isArray (first this_args) then
             (case first argv of
                Some (VArr a0) \<Rightarrow>
                  bnd (deref a0) (\<lambda>inner.
                    if length inner > 0 then
                      bnd (getSignerAddress this) (\<lambda>from.
                      bnd (lib (map_pack (\<lambda>tx. solidityPack_bytes_address env tx from) inner))
                        (\<lambda>packed.
                      bnd (new_array packed) (\<lambda>a1.
                      bnd (set_index0 args' (VArr a1)) (\<lambda>u. ret args'))))
                    else ret args')
              | other \<Rightarrow> ret args')
           else ret args') (\<lambda>a. n \<le> a)"
    using inner a by (simp add: keeps_ret split: option.splits val.splits)
qed

lemma keeps_sendGasless: "keeps bs n (\<lambda>ev. True) (sendGasless env this) (\<lambda>x. True)"
  unfolding sendGasless_def Let_def
  apply (rule keeps_bnd [OF keeps_this_builder])
  apply (simp split: option.splits if_splits)
  apply (intro conjI impI allI keeps_throw)
  apply (rule keeps_bnd [OF keeps_gasless_args], simp)
  apply (rule keeps_bnd [OF keeps_call], simp)
  apply (rule keeps_bnd [OF keeps_from_or_signer], simp)
  apply (simp split: option.splits if_splits)
  apply (intro conjI impI allI keeps_throw)
  apply (rule keeps_bnd [OF keeps_deref])
  apply (rule keeps_bnd [OF keeps_get_arrays])
  apply (rule keeps_bnd [OF keeps_lib])
  apply (rule keeps_bnd [where Q = "\<lambda>x. True"])
   apply (simp split: option.splits)
   apply (intro conjI impI allI keeps_ret keeps_True [OF keeps_attempt]; simp)
  apply (rule keeps_bnd [OF keeps_call], simp)
  apply (rule keeps_bnd [OF keeps_call], simp)
  apply (simp split: option.splits)
  apply (intro conjI impI allI keeps_throw keeps_ret; simp)
  done

lemma keeps_sendGasless_value:
  assumes lt: "this < length bs" and v: "0 < value_or_0 (overrides (bs ! this))"
  shows "keeps bs n (\<lambda>ev. \<not> is_relay ev) (sendGasless env this) (\<lambda>x. False)"
  unfolding sendGasless_def Let_def
  apply (rule keeps_bnd [OF keeps_this_builder])
  apply (simp split: option.splits if_splits)
  apply (intro conjI impI allI keeps_throw)
  apply (rule keeps_bnd [OF keeps_gasless_args], simp)
  apply (rule keeps_bnd [OF keeps_call], simp)
  apply (rule keeps_bnd [OF keeps_from_or_signer], simp)
  using v apply (simp add: keeps_throw)
  done

section \<open>The gasless path\<close>

text \<open>A descriptor that reached the relay: where its parts come from.\<close>

lemma sendGasless_relay:
  assumes bs: "this < length (builders w)" and t: "t = builders w ! this"
    and run: "sendGasless env this w = (r, w')"
    and tr: "trace w' = trace w @ evs" and rel: "Ev_relay tx \<in> set evs"
  shows "(\<exists>w1. gasless_args env this w = (Inr (g_functionArgs tx), w1)
            \<and> arrays w' = arrays w1)
     \<and> g_gasLimit tx =
         gasless_gas
           (case c_estimateGas (contract t) (method_name t) of
              None \<Rightarrow> Inl (Error ''TypeError: not a function'')
            | Some f \<Rightarrow> f (arrays w') (array_at (arrays w') (g_functionArgs tx)) None)
           (ov_gasLimit (overrides t))
     \<and> c_encodeFunctionData (contract t) (method_name t) (arrays w')
           (array_at (arrays w') (g_functionArgs tx)) = Inr (g_data tx)
     \<and> g_functionName tx = method_name t
     \<and> g_callOverrides tx = overrides t
     \<and> g_to tx = c_address (contract t)
     \<and> value_or_0 (overrides t) \<le> 0"
proof -
  obtain ra w1 where ga: "gasless_args env this w = (ra, w1)" by (cases "gasless_args env this w")
  have k: "keeps (builders w) 0 (\<lambda>ev. ev = Ev_getAddress) (gasless_args env this) (\<lambda>a. 0 \<le> a)"
    by (rule keeps_gasless_args) simp
  note kd = keepsD [OF k refl _ ga]
  have b1: "builders w1 = builders w" using kd(1) by simp
  obtain e1 where e1: "trace w1 = trace w @ e1" "list_all (\<lambda>ev. ev = Ev_getAddress) e1"
    using kd(4) by auto
  have norel: "Ev_relay tx \<notin> set e1" using e1(2) by (auto simp: list_all_iff)
  show ?thesis
  proof (cases "gasless_configured (gaslessOptions t)")
    case False
    then have "w' = w" using run bs t
      by (auto simp: sendGasless_def bnd_def this_builder_def throw_def)
    then have "evs = []" using tr by simp
    then show ?thesis using rel by simp
  next
    case True
    then obtain options where opt: "gaslessOptions t = Some options"
      by (cases "gaslessOptions t") (auto simp: gasless_configured_def)
    show ?thesis
    proof (cases ra)
      case (Inl e)
      then have "w' = w1" using run ga bs True opt t
        by (auto simp: sendGasless_def bnd_def this_builder_def throw_def)
      then have "evs = e1" using tr e1 by simp
      then show ?thesis using rel norel by simp
    next
      case (Inr a)
      show ?thesis using run ga bs Inr b1 e1(1) tr rel norel t True opt
        apply (simp add: sendGasless_def bnd_def this_builder_def throw_def)
        apply (auto simp: call_def bnd_def attempt_def lib_def ret_def throw_def Let_def
            from_or_signer_def getSignerAddress_def this_builder_def deref_def get_arrays_def
            split: option.splits if_splits sum.splits prod.splits)
        done
    qed
  qed
qed

lemma map_pack_Inr: "map_pack f xs = Inr ys \<longleftrightarrow> list_all2 (\<lambda>x y. f x = Inr y) xs ys"
proof (induction xs arbitrary: ys)
  case Nil
  then show ?case by auto
next
  case (Cons x xs)
  show ?case
  proof (cases "f x")
    case (Inl e)
    then show ?thesis by (auto simp: list_all2_Cons1)
  next
    case (Inr y)
    then show ?thesis using Cons.IH
      by (cases "map_pack f xs") (auto simp: list_all2_Cons1)
  qed
qed

lemma gasless_args_multicall:
  assumes bs: "this < length (builders w)" and t: "t = builders w ! this"
    and m: "method_name t = ''multicall''"
    and a: "array_at (arrays w) (args t) = VArr a0 # rest"
    and a0: "a0 < length (arrays w)" and inner: "arrays w ! a0 \<noteq> []"
    and run: "gasless_args env this w = (Inr a, w1)"
  shows "\<exists>from packed. s_getAddress (signer t) = Inr from
      \<and> map_pack (\<lambda>tx. solidityPack_bytes_address env tx from) (arrays w ! a0) = Inr packed
      \<and> a = length (arrays w)
      \<and> arrays w1 = arrays w @ [VArr (Suc (length (arrays w))) # rest, packed]"
  using assms
  by (auto simp: gasless_args_def bnd_def this_builder_def deref_def new_array_def array_at_def
      first_def nth_append getSignerAddress_def call_def attempt_def lib_def ret_def throw_def
      set_index0_def list_update_append
      split: sum.splits if_splits)

lemma gasless_args_untouched:
  assumes bs: "this < length (builders w)" and t: "t = builders w ! this"
    and skip: "method_name t \<noteq> ''multicall''
        \<or> \<not> isArray (first (array_at (arrays w) (args t)))
        \<or> (\<exists>a0 rest. array_at (arrays w) (args t) = VArr a0 # rest
              \<and> a0 < length (arrays w) \<and> arrays w ! a0 = [])"
    and run: "gasless_args env this w = (Inr a, w1)"
  shows "a = length (arrays w) \<and> arrays w1 = arrays w @ [array_at (arrays w) (args t)]"
  using assms
  by (auto simp: gasless_args_def bnd_def this_builder_def deref_def new_array_def array_at_def
      first_def nth_append ret_def
      split: sum.splits if_splits list.splits)

subsection \<open>Concrete runs\<close>

lemmas run_defs =
  bnd_def ret_def throw_def attempt_def lib_def call_def get_arrays_def array_at_def deref_def
  new_array_def set_index0_def this_builder_def getSignerAddress_def from_or_signer_def
  value_or_0_def encode_def throw_await_def throw_promise_def falsy_opt_def falsy_string_def
  gasless_configured_def first_def gasless_gas_def Error_def functionError_def
  no_overrides_def spread_def or_else_def

lemmas sample_defs =
  sample_env_def sample_tx_def sample_contract_def good_contract_def mined_def sample_receipt_def
  sample_provider_def sample_signer_def sample_pack_def relayed_def
  show_int_def show_nat.simps digit_char_def

lemmas world_defs = multicall_world_def empty_multicall_world_def value_world_def gasless_world_def
  multicall_descriptor_def empty_multicall_descriptor_def

lemma multicall_trace:
  "trace (snd (sendGasless sample_env 0 multicall_world)) =
     [Ev_getAddress, Ev_getNetwork, Ev_getAddress, Ev_estimateGas ''0x5fbd'' ''multicall'',
      Ev_relay multicall_descriptor, Ev_getTransaction ''0xbeef'']"
  by (simp add: sendGasless_def gasless_args_def world_defs run_defs sample_defs Let_def)

lemma multicall_arrays:
  "arrays (snd (sendGasless sample_env 0 multicall_world)) =
     [[VArr 1, VNum 9], [VStr ''0x01'', VStr ''0x02''], [VArr 3, VNum 9],
      [VStr ''0x01f39f'', VStr ''0x02f39f'']]"
  by (simp add: sendGasless_def gasless_args_def world_defs run_defs sample_defs Let_def)

lemma empty_multicall_trace:
  "trace (snd (sendGasless sample_env 0 empty_multicall_world)) =
     [Ev_getNetwork, Ev_getAddress, Ev_estimateGas ''0x5fbd'' ''multicall'',
      Ev_relay empty_multicall_descriptor, Ev_getTransaction ''0xbeef'']"
  by (simp add: sendGasless_def gasless_args_def world_defs run_defs sample_defs Let_def)

lemma empty_multicall_arrays:
  "arrays (snd (sendGasless sample_env 0 empty_multicall_world)) =
     [[VArr 1, VNum 9], [], [VArr 1, VNum 9]]"
  by (simp add: sendGasless_def gasless_args_def world_defs run_defs sample_defs Let_def)

lemma multicall_world_builder:
  "0 < length (builders multicall_world)
   \<and> method_name (builders multicall_world ! 0) = ''multicall''
   \<and> args (builders multicall_world ! 0) = 0
   \<and> arrays multicall_world = [[VArr 1, VNum 9], [VStr ''0x01'', VStr ''0x02'']]
   \<and> trace multicall_world = []
   \<and> overrides (builders multicall_world ! 0) = no_overrides\<lparr>ov_gasLimit := Some (Number 700000)\<rparr>
   \<and> signer (builders multicall_world ! 0) = sample_signer
   \<and> contract (builders multicall_world ! 0) = good_contract ''0x5fbd'' 80000"
  by (simp add: world_defs sample_tx_def)

lemma empty_multicall_world_builder:
  "0 < length (builders empty_multicall_world)
   \<and> method_name (builders empty_multicall_world ! 0) = ''multicall''
   \<and> args (builders empty_multicall_world ! 0) = 0
   \<and> arrays empty_multicall_world = [[VArr 1, VNum 9], []]
   \<and> trace empty_multicall_world = []"
  by (simp add: world_defs sample_tx_def)

lemma value_world_builder:
  "0 < length (builders value_world)
   \<and> ov_value (overrides (builders value_world ! 0)) = Some (Number 1)
   \<and> gaslessOptions (builders value_world ! 0) = relayed
   \<and> trace value_world = []"
  by (simp add: world_defs sample_tx_def no_overrides_def)

lemma value_run:
  "fst (sendGasless sample_env 0 value_world)
     = Inl (Thrown_Error (Error ''Cannot send native token value with gasless transaction''))
   \<and> trace (snd (sendGasless sample_env 0 value_world)) = [Ev_getNetwork, Ev_getAddress]"
  by (simp add: sendGasless_def gasless_args_def world_defs run_defs sample_defs Let_def)

lemma plain_trace:
  "trace (snd (sendGasless sample_env 0 plain_gasless_world)) =
     [Ev_getNetwork, Ev_getAddress, Ev_estimateGas ''0x5fbd'' ''mint'',
      Ev_relay plain_descriptor, Ev_getTransaction ''0xbeef'']"
  by (simp add: sendGasless_def gasless_args_def world_defs plain_gasless_world_def plain_descriptor_def
      run_defs sample_defs Let_def)

lemma plain_world_builder:
  "0 < length (builders plain_gasless_world)
   \<and> method_name (builders plain_gasless_world ! 0) = ''mint''
   \<and> trace plain_gasless_world = []
   \<and> overrides (builders plain_gasless_world ! 0) = no_overrides
   \<and> contract (builders plain_gasless_world ! 0) = good_contract ''0x5fbd'' 80000"
  by (simp add: plain_gasless_world_def world_defs sample_tx_def)

lemma empty_multicall_world_builder2:
  "overrides (builders empty_multicall_world ! 0) = no_overrides
   \<and> contract (builders empty_multicall_world ! 0) = good_contract ''0x5fbd'' 40000"
  by (simp add: world_defs sample_tx_def)

lemma good_contract_estimate:
  "m = ''mint'' \<or> m = ''multicall'' \<Longrightarrow>
   c_estimateGas (good_contract a gas) m = Some (\<lambda>st argv ov. Inr gas)"
  by (auto simp: good_contract_def sample_contract_def)

subsection \<open>The gas limit of the relay descriptor\<close>

text \<open>
  Claim C5. Whenever the gasless path submits a descriptor to the relay and the
  direct gas estimate of the contract returned \<open>gasEstimate\<close>, the gas limit of the
  descriptor is twice the estimate, replaced by 500000 when that is below 100000,
  and replaced by the \<open>gasLimit\<close> override when the override is larger than the value
  so computed.
\<close>

theorem gasless_gas_limit_of_descriptor:
  assumes lt: "this < length (builders w)" and t: "t = builders w ! this"
    and run: "sendGasless env this w = (r, w')"
    and tr: "trace w' = trace w @ evs" and rel: "Ev_relay tx \<in> set evs"
    and f: "c_estimateGas (contract t) (method_name t) = Some f"
    and est: "f (arrays w') (array_at (arrays w') (g_functionArgs tx)) None = Inr gasEstimate"
  shows "g_gasLimit tx =
      (let computed = (if gasEstimate * 2 < 100000 then 500000 else gasEstimate * 2)
       in case ov_gasLimit (overrides t) of
            None \<Rightarrow> computed
          | Some l \<Rightarrow> if computed < BigNumber_from l then BigNumber_from l else computed)"
proof -
  have "g_gasLimit tx =
         gasless_gas
           (case c_estimateGas (contract t) (method_name t) of
              None \<Rightarrow> Inl (Error ''TypeError: not a function'')
            | Some f \<Rightarrow> f (arrays w') (array_at (arrays w') (g_functionArgs tx)) None)
           (ov_gasLimit (overrides t))"
    using sendGasless_relay [OF lt t run tr rel] by simp
  then have g': "g_gasLimit tx = gasless_gas (Inr gasEstimate) (ov_gasLimit (overrides t))"
    using f est by simp
  show ?thesis
  proof (cases "ov_gasLimit (overrides t)")
    case None
    then show ?thesis using g' by (simp add: gasless_gas_def Let_def)
  next
    case (Some l)
    then show ?thesis using g' by (cases l) (auto simp: gasless_gas_def Let_def)
  qed
qed

theorem gasless_gas_limit_of_descriptor_witness:
  "Ev_relay empty_multicall_descriptor
       \<in> set (trace (snd (sendGasless sample_env 0 empty_multicall_world)))
   \<and> c_estimateGas (contract (builders empty_multicall_world ! 0)) ''multicall''
       = Some (\<lambda>st argv ov. Inr 40000)
   \<and> ov_gasLimit (overrides (builders empty_multicall_world ! 0)) = None
   \<and> g_gasLimit empty_multicall_descriptor = 500000
   \<and> Ev_relay plain_descriptor \<in> set (trace (snd (sendGasless sample_env 0 plain_gasless_world)))
   \<and> c_estimateGas (contract (builders plain_gasless_world ! 0)) ''mint''
       = Some (\<lambda>st argv ov. Inr 80000)
   \<and> ov_gasLimit (overrides (builders plain_gasless_world ! 0)) = None
   \<and> g_gasLimit plain_descriptor = 160000
   \<and> Ev_relay multicall_descriptor \<in> set (trace (snd (sendGasless sample_env 0 multicall_world)))
   \<and> c_estimateGas (contract (builders multicall_world ! 0)) ''multicall''
       = Some (\<lambda>st argv ov. Inr 80000)
   \<and> ov_gasLimit (overrides (builders multicall_world ! 0)) = Some (Number 700000)
   \<and> g_gasLimit multicall_descriptor = 700000"
proof -
  have f1: "c_estimateGas (contract (builders empty_multicall_world ! 0))
              (method_name (builders empty_multicall_world ! 0)) = Some (\<lambda>st argv ov. Inr 40000)"
    by (simp add: empty_multicall_world_builder empty_multicall_world_builder2 good_contract_estimate)
  have r1: "Ev_relay empty_multicall_descriptor
              \<in> set (trace (snd (sendGasless sample_env 0 empty_multicall_world)))"
    by (simp add: empty_multicall_trace)
  have t1: "trace (snd (sendGasless sample_env 0 empty_multicall_world)) =
              trace empty_multicall_world @ trace (snd (sendGasless sample_env 0 empty_multicall_world))"
    by (simp add: empty_multicall_world_builder)
  have f2: "c_estimateGas (contract (builders plain_gasless_world ! 0))
              (method_name (builders plain_gasless_world ! 0)) = Some (\<lambda>st argv ov. Inr 80000)"
    by (simp add: plain_world_builder good_contract_estimate)
  have r2: "Ev_relay plain_descriptor \<in> set (trace (snd (sendGasless sample_env 0 plain_gasless_world)))"
    by (simp add: plain_trace)
  have t2: "trace (snd (sendGasless sample_env 0 plain_gasless_world)) =
              trace plain_gasless_world @ trace (snd (sendGasless sample_env 0 plain_gasless_world))"
    by (simp add: plain_world_builder)
  have f3: "c_estimateGas (contract (builders multicall_world ! 0))
              (method_name (builders multicall_world ! 0)) = Some (\<lambda>st argv ov. Inr 80000)"
    by (simp add: multicall_world_builder good_contract_estimate)
  have r3: "Ev_relay multicall_descriptor \<in> set (trace (snd (sendGasless sample_env 0 multicall_world)))"
    by (simp add: multicall_trace)
  have t3: "trace (snd (sendGasless sample_env 0 multicall_world)) =
              trace multicall_world @ trace (snd (sendGasless sample_env 0 multicall_world))"
    by (simp add: multicall_world_builder)
  show ?thesis
    using gasless_gas_limit_of_descriptor [where this = 0 and w = empty_multicall_world
        and env = sample_env and tx = empty_multicall_descriptor and gasEstimate = 40000,
        OF _ refl prod.collapse [symmetric] t1 r1 f1]
      gasless_gas_limit_of_descriptor [where this = 0 and w = plain_gasless_world
        and env = sample_env and tx = plain_descriptor and gasEstimate = 80000,
        OF _ refl prod.collapse [symmetric] t2 r2 f2]
      gasless_gas_limit_of_descriptor [where this = 0 and w = multicall_world
        and env = sample_env and tx = multicall_descriptor and gasEstimate = 80000,
        OF _ refl prod.collapse [symmetric] t3 r3 f3]
      f1 r1 f2 r2 f3 r3 multicall_world_builder empty_multicall_world_builder
      empty_multicall_world_builder2 plain_world_builder
    by (simp add: no_overrides_def)
qed

subsection \<open>The arguments of a multicall\<close>

text \<open>
  Claim C6. Whenever the gasless path submits a descriptor for a \<open>multicall\<close> whose
  first argument is an array: if that array is empty, the arguments of the descriptor
  are the builder's, untouched; otherwise the first argument of the descriptor is a
  new array that holds, for each inner call in order, that call packed with the
  address of the signer by \<open>solidityPack(["bytes", "address"], [call, from])\<close>. The
  call data of the descriptor encodes these arguments.
\<close>

theorem gasless_multicall_packs_inner_calls:
  assumes lt: "this < length (builders w)" and t: "t = builders w ! this"
    and m: "method_name t = ''multicall''"
    and a: "array_at (arrays w) (args t) = VArr a0 # rest"
    and a0: "a0 < length (arrays w)"
    and run: "sendGasless env this w = (r, w')"
    and tr: "trace w' = trace w @ evs" and rel: "Ev_relay tx \<in> set evs"
  shows "(if arrays w ! a0 = []
          then array_at (arrays w') (g_functionArgs tx) = VArr a0 # rest
             \<and> array_at (arrays w') a0 = []
          else (\<exists>from packed a1. s_getAddress (signer t) = Inr from
             \<and> list_all2 (\<lambda>call p. solidityPack_bytes_address env call from = Inr p)
                  (arrays w ! a0) packed
             \<and> array_at (arrays w') (g_functionArgs tx) = VArr a1 # rest
             \<and> array_at (arrays w') a1 = packed))
       \<and> c_encodeFunctionData (contract t) ''multicall'' (arrays w')
            (array_at (arrays w') (g_functionArgs tx)) = Inr (g_data tx)"
proof -
  obtain w1 where ga: "gasless_args env this w = (Inr (g_functionArgs tx), w1)"
    and same: "arrays w' = arrays w1"
    using sendGasless_relay [OF lt t run tr rel] by blast
  have enc: "c_encodeFunctionData (contract t) (method_name t) (arrays w')
               (array_at (arrays w') (g_functionArgs tx)) = Inr (g_data tx)"
    using sendGasless_relay [OF lt t run tr rel] by simp
  have data: "c_encodeFunctionData (contract t) ''multicall'' (arrays w')
            (array_at (arrays w') (g_functionArgs tx)) = Inr (g_data tx)"
    using enc m by simp
  show ?thesis
  proof (cases "arrays w ! a0 = []")
    case True
    have "method_name t \<noteq> ''multicall''
        \<or> \<not> isArray (first (array_at (arrays w) (args t)))
        \<or> (\<exists>a0 rest. array_at (arrays w) (args t) = VArr a0 # rest
              \<and> a0 < length (arrays w) \<and> arrays w ! a0 = [])"
      using a a0 True by blast
    from gasless_args_untouched [OF lt t this ga]
    have "g_functionArgs tx = length (arrays w)"
      and "arrays w1 = arrays w @ [array_at (arrays w) (args t)]" by simp_all
    then show ?thesis using True a a0 same data
      by (simp add: array_at_def nth_append)
  next
    case False
    obtain "from" packed where s: "s_getAddress (signer t) = Inr from"
      and p: "map_pack (\<lambda>tx. solidityPack_bytes_address env tx from) (arrays w ! a0) = Inr packed"
      and n: "g_functionArgs tx = length (arrays w)"
      and w1: "arrays w1 = arrays w @ [VArr (Suc (length (arrays w))) # rest, packed]"
      using gasless_args_multicall [OF lt t m a a0 False ga] by blast
    have l: "list_all2 (\<lambda>call p. solidityPack_bytes_address env call from = Inr p) (arrays w ! a0) packed"
      using p by (simp add: map_pack_Inr)
    have c: "array_at (arrays w') (g_functionArgs tx) = VArr (Suc (length (arrays w))) # rest"
      using n w1 same by (simp add: array_at_def nth_append)
    have d: "array_at (arrays w') (Suc (length (arrays w))) = packed"
      using w1 same by (simp add: array_at_def nth_append)
    have "\<exists>from packed a1. s_getAddress (signer t) = Inr from
             \<and> list_all2 (\<lambda>call p. solidityPack_bytes_address env call from = Inr p)
                  (arrays w ! a0) packed
             \<and> array_at (arrays w') (g_functionArgs tx) = VArr a1 # rest
             \<and> array_at (arrays w') a1 = packed"
      using s l c d by (intro exI [of _ "from"] exI [of _ packed] exI [of _ "Suc (length (arrays w))"]) simp
    then show ?thesis using False data by simp
  qed
qed

theorem gasless_multicall_packs_inner_calls_witness:
  "method_name (builders multicall_world ! 0) = ''multicall''
   \<and> array_at (arrays multicall_world) (args (builders multicall_world ! 0)) = [VArr 1, VNum 9]
   \<and> arrays multicall_world ! 1 = [VStr ''0x01'', VStr ''0x02'']
   \<and> s_getAddress (signer (builders multicall_world ! 0)) = Inr ''0xf39f''
   \<and> Ev_relay multicall_descriptor \<in> set (trace (snd (sendGasless sample_env 0 multicall_world)))
   \<and> array_at (arrays (snd (sendGasless sample_env 0 multicall_world))) (g_functionArgs multicall_descriptor)
       = [VArr 3, VNum 9]
   \<and> array_at (arrays (snd (sendGasless sample_env 0 multicall_world))) 3
       = [VStr ''0x01f39f'', VStr ''0x02f39f'']
   \<and> g_data multicall_descriptor = ''multicall:[0x01f39f,0x02f39f];9''
   \<and> arrays empty_multicall_world ! 1 = []
   \<and> Ev_relay empty_multicall_descriptor \<in> set (trace (snd (sendGasless sample_env 0 empty_multicall_world)))
   \<and> array_at (arrays (snd (sendGasless sample_env 0 empty_multicall_world))) (g_functionArgs empty_multicall_descriptor)
       = [VArr 1, VNum 9]
   \<and> array_at (arrays (snd (sendGasless sample_env 0 empty_multicall_world))) 1 = []"
proof -
  have rel: "Ev_relay multicall_descriptor \<in> set (trace (snd (sendGasless sample_env 0 multicall_world)))"
    by (simp add: multicall_trace)
  have tr: "trace (snd (sendGasless sample_env 0 multicall_world)) =
              trace multicall_world @ trace (snd (sendGasless sample_env 0 multicall_world))"
    by (simp add: multicall_world_builder)
  have a: "array_at (arrays multicall_world) (args (builders multicall_world ! 0)) = VArr 1 # [VNum 9]"
    by (simp add: multicall_world_builder array_at_def)
  have rel': "Ev_relay empty_multicall_descriptor \<in> set (trace (snd (sendGasless sample_env 0 empty_multicall_world)))"
    by (simp add: empty_multicall_trace)
  have tr': "trace (snd (sendGasless sample_env 0 empty_multicall_world)) =
               trace empty_multicall_world
               @ trace (snd (sendGasless sample_env 0 empty_multicall_world))"
    by (simp add: empty_multicall_world_builder)
  have a': "array_at (arrays empty_multicall_world) (args (builders empty_multicall_world ! 0)) = VArr 1 # [VNum 9]"
    by (simp add: empty_multicall_world_builder array_at_def)
  show ?thesis
    using gasless_multicall_packs_inner_calls [where this = 0 and w = multicall_world and env = sample_env
        and tx = multicall_descriptor, OF _ refl _ a _ prod.collapse [symmetric] tr rel]
      gasless_multicall_packs_inner_calls [where this = 0 and w = empty_multicall_world and env = sample_env
        and tx = empty_multicall_descriptor, OF _ refl _ a' _ prod.collapse [symmetric] tr' rel']
      rel rel' a multicall_world_builder empty_multicall_world_builder
    by (simp add: multicall_arrays empty_multicall_arrays array_at_def sample_signer_def
        multicall_descriptor_def empty_multicall_descriptor_def)
qed

subsection \<open>Native value\<close>

text \<open>
  Claim C7. When the \<open>value\<close> override of a builder is positive, the gasless path
  ends in an exception and nothing is submitted to the relay.
\<close>

theorem gasless_rejects_native_value:
  assumes lt: "this < length (builders w)"
    and v: "ov_value (overrides (builders w ! this)) = Some v" and pos: "0 < BigNumber_from v"
  shows "\<exists>e evs. fst (sendGasless env this w) = Inl e
      \<and> trace (snd (sendGasless env this w)) = trace w @ evs
      \<and> (\<forall>tx. Ev_relay tx \<notin> set evs)"
proof -
  have "truthy v" using pos by (cases v) auto
  then have val: "0 < value_or_0 (overrides (builders w ! this))"
    using v pos by (simp add: value_or_0_def)
  obtain r w' where run: "sendGasless env this w = (r, w')" by (cases "sendGasless env this w")
  note k = keepsD [OF keeps_sendGasless_value [OF lt val, of 0 env] refl _ run]
  obtain evs where evs: "trace w' = trace w @ evs" "list_all (\<lambda>ev. \<not> is_relay ev) evs"
    using k(4) by auto
  have "\<forall>tx. Ev_relay tx \<notin> set evs" using evs(2) by (auto simp: list_all_iff)
  moreover obtain e where "r = Inl e" using k(5) by (cases r) auto
  ultimately show ?thesis using run evs(1) by auto
qed

theorem gasless_rejects_native_value_witness:
  "0 < length (builders value_world)
   \<and> ov_value (overrides (builders value_world ! 0)) = Some (Number 1)
   \<and> 0 < BigNumber_from (Number 1)
   \<and> gaslessOptions (builders value_world ! 0) = relayed
   \<and> fst (sendGasless sample_env 0 value_world)
       = Inl (Thrown_Error (Error ''Cannot send native token value with gasless transaction''))
   \<and> trace (snd (sendGasless sample_env 0 value_world)) = [Ev_getNetwork, Ev_getAddress]"
  using gasless_rejects_native_value [of 0 value_world "Number 1" sample_env] value_world_builder value_run
  by simp

subsection \<open>The builder after a gasless send\<close>

text \<open>
  Claim C10. The gasless path works on a copy of the argument array: after it,
  whatever its outcome, every builder is as it was (its reference to the argument
  array, its overrides, its method and its other fields) and every array that
  existed before is as it was, the argument array and the arrays it refers to among
  them. The arguments of a descriptor sent to the relay are an array made during the
  call.
\<close>

theorem sendGasless_leaves_builder_untouched:
  "builders (snd (sendGasless env this w)) = builders w
   \<and> take (length (arrays w)) (arrays (snd (sendGasless env this w))) = arrays w
   \<and> (\<forall>tx. Ev_relay tx \<in> set (drop (length (trace w)) (trace (snd (sendGasless env this w))))
         \<longrightarrow> length (arrays w) \<le> g_functionArgs tx
             \<and> g_functionArgs tx < length (arrays (snd (sendGasless env this w))))"
proof -
  obtain r w' where run: "sendGasless env this w = (r, w')" by (cases "sendGasless env this w")
  note k = keepsD [OF keeps_sendGasless [of "builders w" "length (arrays w)" env this] refl _ run]
  obtain evs where evs: "trace w' = trace w @ evs" using k(4) by auto
  have fresh: "length (arrays w) \<le> g_functionArgs tx \<and> g_functionArgs tx < length (arrays w')"
    if rel: "Ev_relay tx \<in> set evs" for tx
  proof (cases "this < length (builders w)")
    case True
    obtain w1 where ga: "gasless_args env this w = (Inr (g_functionArgs tx), w1)"
      and same: "arrays w' = arrays w1"
      using sendGasless_relay [OF True refl run evs rel] by blast
    have k1: "keeps (builders w) (length (arrays w)) (\<lambda>ev. True) (gasless_args env this)
                (\<lambda>a. length (arrays w) \<le> a)"
      by (rule keeps_gasless_args) simp
    have lo: "length (arrays w) \<le> g_functionArgs tx"
      using keepsD(5) [OF k1 refl _ ga] by simp
    have "g_functionArgs tx < length (arrays w1)"
      using ga True
      by (auto simp: gasless_args_def bnd_def this_builder_def deref_def new_array_def
          getSignerAddress_def call_def attempt_def lib_def ret_def throw_def set_index0_def
          split: sum.splits if_splits option.splits val.splits)
    then show ?thesis using lo same by simp
  next
    case False
    then have "w' = w" using run
      by (auto simp: sendGasless_def bnd_def this_builder_def)
    then show ?thesis using evs rel by simp
  qed
  show ?thesis using run k(1,2) evs fresh by simp
qed

theorem sendGasless_leaves_builder_untouched_witness:
  "builders (snd (sendGasless sample_env 0 multicall_world)) = builders multicall_world
   \<and> arrays multicall_world = [[VArr 1, VNum 9], [VStr ''0x01'', VStr ''0x02'']]
   \<and> arrays (snd (sendGasless sample_env 0 multicall_world)) =
       [[VArr 1, VNum 9], [VStr ''0x01'', VStr ''0x02''], [VArr 3, VNum 9],
        [VStr ''0x01f39f'', VStr ''0x02f39f'']]
   \<and> Ev_relay multicall_descriptor
       \<in> set (drop (length (trace multicall_world)) (trace (snd (sendGasless sample_env 0 multicall_world))))
   \<and> g_functionArgs multicall_descriptor = 2"
  using sendGasless_leaves_builder_untouched [of sample_env 0 multicall_world]
    multicall_world_builder multicall_arrays multicall_trace
  by (simp add: multicall_descriptor_def)

text \<open>A setter, in contrast, does write the builder.\<close>

lemma setOverrides_writes_builder:
  assumes "this < length (builders w)"
  shows "fst (setOverrides this ov w) = Inr ()
     \<and> overrides (builders (snd (setOverrides this ov w)) ! this)
         = spread (overrides (builders w ! this)) ov"
  using assms by (simp add: setOverrides_def bnd_def this_builder_def)

section \<open>Gas estimation that fails\<close>

text \<open>When the estimate fails and the simulation then succeeds, what \<open>estimateGasLimit\<close>
  throws is a promise.\<close>

lemma estimateGasLimit_throws_promise:
  assumes lt: "this < length (builders w)" and t: "t = builders w ! this"
    and f: "c_estimateGas (contract t) (method_name t) = Some f"
    and est: "f (arrays w) (array_at (arrays w) (args t)) (Some (overrides t)) = Inl err"
    and sim: "simulate env this
                (w\<lparr>trace := trace w @ [Ev_estimateGas (c_address (contract t)) (method_name t)]\<rparr>)
              = (Inr v, w1)"
  shows "estimateGasLimit env this w =
      (Inl (Thrown_Promise (fst (transactionError env this err w1))),
       snd (transactionError env this err w1))"
  using assms
  by (simp add: estimateGasLimit_def bnd_def this_builder_def deref_def get_arrays_def attempt_def
      throw_promise_def split: prod.splits)

text \<open>
  Claim C8, at a builder whose gas estimate fails and whose static call succeeds:
  \<open>estimateGasLimit\<close> calls the estimate, then the static call of \<open>simulate\<close>, then
  builds the diagnosis; what it throws is the promise of the \<open>TransactionError\<close>, not
  the \<open>TransactionError\<close>.
\<close>

theorem estimate_failure_throws_unawaited_promise:
  "fst (estimateGasLimit sample_env 0 estimate_fails_world)
     = Inl (Thrown_Promise
        (Inr \<lparr>te_reason = ''cannot estimate gas'', te_from = ''0xf39f'',
                te_to = ''0x5fbd'', te_method = ''mint(5)'',
                te_data = ''mint:5'',
                te_network = \<lparr>net_chainId = 1, net_name = ''homestead''\<rparr>,
                te_rpcUrl = Some ''https://rpc.example'', te_value = 0,
                te_hash = None, te_contractName = None,
                te_sources = None\<rparr>))
   \<and> trace (snd (estimateGasLimit sample_env 0 estimate_fails_world))
     = [Ev_estimateGas ''0x5fbd'' ''mint'', Ev_callStatic ''0x5fbd'' ''mint'',
        Ev_getNetwork, Ev_getAddress, Ev_fetchContractMetadata ''0x5fbd'']"
  by (simp add: estimateGasLimit_def simulate_def transactionError_def estimate_fails_world_def
      run_defs sample_defs Let_def indent_lines_def)

section \<open>The batch\<close>

lemma executeAll_loop_append:
  assumes "executeAll_loop env before acc w = (Inr rs, w1)"
  shows "executeAll_loop env (before @ rest) acc w = executeAll_loop env rest rs w1"
  using assms
proof (induction before arbitrary: acc w)
  case Nil
  then show ?case by (simp add: ret_def)
next
  case (Cons b before)
  obtain r0 w0 where b: "execute env b w = (r0, w0)" by (cases "execute env b w")
  show ?case
  proof (cases r0)
    case (Inl e)
    then show ?thesis using Cons.prems b by (simp add: bnd_def)
  next
    case (Inr x)
    then have "executeAll_loop env before (acc @ [x]) w0 = (Inr rs, w1)"
      using Cons.prems b by (simp add: bnd_def)
    from Cons.IH [OF this] show ?thesis using b Inr by (simp add: bnd_def)
  qed
qed

lemma executeAll_loop_acc:
  "executeAll_loop env ts acc w =
     (case executeAll_loop env ts [] w of
        (Inl e, w') \<Rightarrow> (Inl e, w')
      | (Inr rs, w') \<Rightarrow> (Inr (acc @ rs), w'))"
proof (induction ts arbitrary: acc w)
  case Nil
  then show ?case by (simp add: ret_def)
next
  case (Cons b ts)
  obtain r0 w0 where b: "execute env b w = (r0, w0)" by (cases "execute env b w")
  show ?case
  proof (cases r0)
    case (Inl e)
    then show ?thesis using b by (simp add: bnd_def)
  next
    case (Inr x)
    have 1: "executeAll_loop env (b # ts) acc w = executeAll_loop env ts (acc @ [x]) w0"
      using b Inr by (simp add: bnd_def)
    have 2: "executeAll_loop env (b # ts) [] w = executeAll_loop env ts [x] w0"
      using b Inr by (simp add: bnd_def)
    show ?thesis
      unfolding 1 2
      by (subst Cons.IH [of "acc @ [x]"], subst Cons.IH [of "[x]"])
        (simp split: prod.splits sum.splits)
  qed
qed

text \<open>The batch runs its first builder, then the rest from the world the first left,
  and the results come in the order of the builders.\<close>

lemma executeAll_Cons:
  "executeAll env (b # rest) w =
     (case execute env b w of
        (Inl e, w1) \<Rightarrow> (Inl e, w1)
      | (Inr r, w1) \<Rightarrow>
          (case executeAll env rest w1 of
             (Inl e, w2) \<Rightarrow> (Inl e, w2)
           | (Inr rs, w2) \<Rightarrow> (Inr (r # rs), w2)))"
proof -
  obtain r0 w0 where b: "execute env b w = (r0, w0)" by (cases "execute env b w")
  show ?thesis
  proof (cases r0)
    case (Inl e)
    then show ?thesis using b by (simp add: executeAll_def bnd_def)
  next
    case (Inr x)
    have "executeAll env (b # rest) w = executeAll_loop env rest [x] w0"
      using b Inr by (simp add: executeAll_def bnd_def)
    then show ?thesis
      using b Inr executeAll_loop_acc [of env rest "[x]" w0]
      by (simp add: executeAll_def split: prod.splits sum.splits)
  qed
qed

text \<open>
  Claim C9. \<open>executeAll\<close> executes the builders one after the other in the order of
  the list: the first, then the rest from the world the first left, the results in
  the same order. When the builders \<open>before\<close> have executed, in order, and the execution of
  the next builder \<open>b\<close> fails with \<open>e\<close>, then \<open>executeAll\<close> on the whole list fails
  with \<open>e\<close>, returns no list of results, and ends in the world in which \<open>b\<close> failed:
  whatever builders come \<open>after\<close>, no collaborator of theirs is called.
\<close>

theorem executeAll_stops_at_first_failure:
  assumes before: "executeAll env before w = (Inr rs, w1)"
    and fails: "execute env b w1 = (Inl e, w2)"
  shows "executeAll env (before @ b # after) w = (Inl e, w2)
     \<and> executeAll env (first_builder # others) w0 =
         (case execute env first_builder w0 of
            (Inl e0, w') \<Rightarrow> (Inl e0, w')
          | (Inr r0, w') \<Rightarrow>
              (case executeAll env others w' of
                 (Inl e0, w'') \<Rightarrow> (Inl e0, w'')
               | (Inr rs0, w'') \<Rightarrow> (Inr (r0 # rs0), w'')))"
proof -
  have "executeAll env (before @ b # after) w = (Inl e, w2)"
    using executeAll_loop_append [OF before [unfolded executeAll_def], of "b # after"] fails
    by (simp add: executeAll_def bnd_def)
  then show ?thesis using executeAll_Cons [of env first_builder others w0] by simp
qed

lemma batch_first:
  "executeAll sample_env [0] batch_world
     = (Inr [Receipt (sample_receipt ''0xa1'')],
        batch_world\<lparr>trace := [Ev_getFeeData, Ev_getGasPrice, Ev_estimateGas ''0xc1'' ''mint'',
                                Ev_functions ''0xc1'' ''mint'', Ev_wait ''0xa1'']\<rparr>)"
  by (simp add: executeAll_def execute_def send_def getGasOverrides_def getGasPrice_def
      estimateGasLimit_def batch_world_def run_defs sample_defs Let_def)

lemma batch_second:
  "execute sample_env 1
     (batch_world\<lparr>trace := [Ev_getFeeData, Ev_getGasPrice, Ev_estimateGas ''0xc1'' ''mint'',
                                Ev_functions ''0xc1'' ''mint'', Ev_wait ''0xa1'']\<rparr>)
     = (Inl (Thrown_TransactionError batch_failure), batch_world\<lparr>trace := batch_trace\<rparr>)"
  by (simp add: execute_def send_def getGasOverrides_def getGasPrice_def
      estimateGasLimit_def transactionError_def batch_world_def batch_failure_def batch_trace_def
      run_defs sample_defs Let_def indent_lines_def)

theorem executeAll_stops_at_first_failure_witness:
  "executeAll sample_env [0] batch_world
     = (Inr [Receipt (sample_receipt ''0xa1'')],
        batch_world\<lparr>trace := [Ev_getFeeData, Ev_getGasPrice, Ev_estimateGas ''0xc1'' ''mint'',
                                Ev_functions ''0xc1'' ''mint'', Ev_wait ''0xa1'']\<rparr>)
   \<and> execute sample_env 1
       (batch_world\<lparr>trace := [Ev_getFeeData, Ev_getGasPrice, Ev_estimateGas ''0xc1'' ''mint'',
                                Ev_functions ''0xc1'' ''mint'', Ev_wait ''0xa1'']\<rparr>)
     = (Inl (Thrown_TransactionError batch_failure), batch_world\<lparr>trace := batch_trace\<rparr>)
   \<and> executeAll sample_env [0, 1, 2] batch_world
     = (Inl (Thrown_TransactionError batch_failure), batch_world\<lparr>trace := batch_trace\<rparr>)
   \<and> Ev_estimateGas ''0xc3'' ''mint'' \<notin> set batch_trace
   \<and> Ev_functions ''0xc3'' ''mint'' \<notin> set batch_trace"
  using executeAll_stops_at_first_failure [OF batch_first batch_second, of "[2]", THEN conjunct1]
    batch_first batch_second
  by (simp add: batch_trace_def)

end
